theory Spec2Isabelle
  imports Complex_Main
begin

section \<open>Python values, errors and objects\<close>

text \<open>
  The configuration nodes are Python classes with validating property setters. The values
  a setter can receive are modelled by one datatype: \<open>None\<close>, booleans, integers, floats,
  strings, lists, dictionaries (association lists, in insertion order) and instances of
  node classes (the class name with the instance's attribute dictionary). Integers are
  unbounded, as in Python. Strings are lists of characters and stand for ASCII text, which
  is all the sources use in their literals.

  A float is an IEEE 754 double: a finite number, given by the rational it denotes (the
  positive zero is \<open>FNum 0\<close>), the negative zero, an infinity or NaN.
\<close>

datatype pyfloat = FNum rat | FNegZero | FInf | FNegInf | FNaN

datatype pyval =
    PNone
  | PBool bool
  | PInt int
  | PFloat pyfloat
  | PStr string
  | PList "pyval list"
  | PDict "(string \<times> pyval) list"
  | PObj string "(string \<times> pyval) list"

text \<open>
  The exceptions that reach a caller. \<open>EmptyValueError\<close>, \<open>MinimumValueError\<close>,
  \<open>NotAnIntegerError\<close> and \<open>NotADictError\<close> of the validator library derive from Python's
  \<open>ValueError\<close>, as does \<open>HighchartsValueError\<close>; \<open>CannotCoerceError\<close> and its subclass
  \<open>NotAnIterableError\<close> derive from \<open>TypeError\<close>. \<open>TypeConversionError\<close> is the error kind
  the specification gives to the class-sensitive decorator.
\<close>

datatype error =
    EmptyValueError
  | CannotCoerceError
  | MinimumValueError
  | NotAnIntegerError
  | NotADictError
  | NotAnIterableError
  | HighchartsValueError
  | TypeConversionError
  | ValueError
  | TypeError
  | AttributeError
  | KeyError
  | IndexError
  | OverflowError

text \<open>What an \<open>except ValueError\<close> clause catches.\<close>

fun is_ValueError :: "error \<Rightarrow> bool" where
  "is_ValueError EmptyValueError = True"
| "is_ValueError MinimumValueError = True"
| "is_ValueError NotAnIntegerError = True"
| "is_ValueError NotADictError = True"
| "is_ValueError HighchartsValueError = True"
| "is_ValueError TypeConversionError = True"
| "is_ValueError ValueError = True"
| "is_ValueError CannotCoerceError = False"
| "is_ValueError NotAnIterableError = False"
| "is_ValueError TypeError = False"
| "is_ValueError AttributeError = False"
| "is_ValueError KeyError = False"
| "is_ValueError IndexError = False"
| "is_ValueError OverflowError = False"

text \<open>\<open>x != 0\<close>, \<open>x < 0\<close> and \<open>x.is_integer()\<close> on a float. Every comparison with NaN is false.\<close>

fun float_nonzero :: "pyfloat \<Rightarrow> bool" where
  "float_nonzero (FNum r) = (r \<noteq> 0)"
| "float_nonzero FNegZero = False"
| "float_nonzero FInf = True"
| "float_nonzero FNegInf = True"
| "float_nonzero FNaN = True"

fun float_below_zero :: "pyfloat \<Rightarrow> bool" where
  "float_below_zero (FNum r) = (r < 0)"
| "float_below_zero FNegZero = False"
| "float_below_zero FInf = False"
| "float_below_zero FNegInf = True"
| "float_below_zero FNaN = False"

text \<open>Python's truth value of an object, as tested by \<open>not value\<close>.\<close>

fun truthy :: "pyval \<Rightarrow> bool" where
  "truthy PNone = False"
| "truthy (PBool b) = b"
| "truthy (PInt n) = (n \<noteq> 0)"
| "truthy (PFloat x) = float_nonzero x"
| "truthy (PStr s) = (s \<noteq> [])"
| "truthy (PList xs) = (xs \<noteq> [])"
| "truthy (PDict d) = (d \<noteq> [])"
| "truthy (PObj c a) = True"

definition py_bool :: "pyval \<Rightarrow> pyval" where
  "py_bool v = PBool (truthy v)"

subsection \<open>Strings\<close>

fun starts_with :: "string \<Rightarrow> string \<Rightarrow> bool" where
  "starts_with [] ys = True"
| "starts_with (x # xs) [] = False"
| "starts_with (x # xs) (y # ys) = (x = y \<and> starts_with xs ys)"

text \<open>\<open>needle in haystack\<close> on two strings: the substring test.\<close>

fun str_contains :: "string \<Rightarrow> string \<Rightarrow> bool" where
  "str_contains n [] = (n = [])"
| "str_contains n (y # ys) = (starts_with n (y # ys) \<or> str_contains n ys)"

text \<open>
  \<open>key in value\<close> where the source has first checked that \<open>value\<close> is a dictionary or a
  string: key membership for a dictionary, the substring test for a string.
\<close>

fun py_in :: "string \<Rightarrow> pyval \<Rightarrow> bool" where
  "py_in k (PStr s) = str_contains k s"
| "py_in k (PDict d) = (map_of d k \<noteq> None)"
| "py_in k v = False"

definition lower_char :: "char \<Rightarrow> char" where
  "lower_char c =
     (case map_of (zip ''ABCDEFGHIJKLMNOPQRSTUVWXYZ'' ''abcdefghijklmnopqrstuvwxyz'') c of
        Some d \<Rightarrow> d
      | None \<Rightarrow> c)"

text \<open>\<open>str.lower()\<close> on ASCII text.\<close>

definition lower :: "string \<Rightarrow> string" where
  "lower s = map lower_char s"

subsection \<open>Objects\<close>

text \<open>
  An instance is its attribute dictionary. A setter runs on the instance and either
  raises, leaving the instance as it was at the raise, or returns; both outcomes carry the
  instance's attributes afterwards.
\<close>

type_synonym obj = "(string \<times> pyval) list"

type_synonym outcome = "error option \<times> obj"

fun setattr :: "string \<Rightarrow> pyval \<Rightarrow> obj \<Rightarrow> obj" where
  "setattr k v [] = [(k, v)]"
| "setattr k v ((k', v') # s) = (if k' = k then (k, v) # s else (k', v') # setattr k v s)"

definition getattr :: "obj \<Rightarrow> string \<Rightarrow> error + pyval" where
  "getattr s k = (case map_of s k of None \<Rightarrow> Inl AttributeError | Some v \<Rightarrow> Inr v)"

definition store :: "string \<Rightarrow> pyval \<Rightarrow> obj \<Rightarrow> outcome" where
  "store k v s = (None, setattr k v s)"

definition raises :: "error \<Rightarrow> obj \<Rightarrow> outcome" where
  "raises e s = (Some e, s)"

text \<open>\<open>self._k = f(value)\<close>: the right-hand side is evaluated first, and nothing is
  stored when it raises.\<close>

definition assign :: "string \<Rightarrow> error + pyval \<Rightarrow> obj \<Rightarrow> outcome" where
  "assign k r s = (case r of Inl e \<Rightarrow> raises e s | Inr v \<Rightarrow> store k v s)"

text \<open>The statements of a constructor body, run in order up to the first exception.\<close>

fun run_all :: "(obj \<Rightarrow> outcome) list \<Rightarrow> obj \<Rightarrow> outcome" where
  "run_all [] s = (None, s)"
| "run_all (f # fs) s =
     (case f s of (Some e, s') \<Rightarrow> (Some e, s') | (None, s') \<Rightarrow> run_all fs s')"

text \<open>A constructor call yields the instance, or the exception and no instance.\<close>

definition construct :: "outcome \<Rightarrow> error + obj" where
  "construct r = (case r of (Some e, s) \<Rightarrow> Inl e | (None, s) \<Rightarrow> Inr s)"

text \<open>\<open>kwargs.pop(k, default)\<close> and \<open>as_dict.pop(k, default)\<close>, read for their value.\<close>

definition pop :: "(string \<times> pyval) list \<Rightarrow> string \<Rightarrow> pyval \<Rightarrow> pyval" where
  "pop d k dflt = (case map_of d k of None \<Rightarrow> dflt | Some v \<Rightarrow> v)"

section \<open>The validator library\<close>

text \<open>
  The setters call \<open>validator_collection.validators\<close>, a third-party package. Its functions
  are modelled after its documented behaviour, for the arguments the sources pass.
\<close>

subsection \<open>Numeric strings\<close>

text \<open>
  Python's \<open>float(s)\<close> on a string. Underscores may group digits: each one stands between
  two digits, and they are removed. White space around the literal is dropped. What is
  left is an optional sign followed by \<open>inf\<close>, \<open>infinity\<close> or \<open>nan\<close> in any letter case, or by a
  decimal literal, with an optional fraction and an optional exponent, whose value is
  rounded to the nearest double.
\<close>

definition digit_val :: "char \<Rightarrow> int option" where
  "digit_val c = map_of (zip ''0123456789'' [0, 1, 2, 3, 4, 5, 6, 7, 8, 9]) c"

definition is_digit :: "char \<Rightarrow> bool" where
  "is_digit c = (digit_val c \<noteq> None)"

fun digits_val :: "int \<Rightarrow> string \<Rightarrow> int option" where
  "digits_val acc [] = Some acc"
| "digits_val acc (c # cs) =
     (case digit_val c of None \<Rightarrow> None | Some d \<Rightarrow> digits_val (10 * acc + d) cs)"

text \<open>
  The scan that removes the underscores, with the character before the current one: an
  underscore is refused unless a digit precedes it and a digit follows it.
\<close>

fun drop_underscores :: "char \<Rightarrow> string \<Rightarrow> string option" where
  "drop_underscores prev [] = (if prev = CHR ''_'' then None else Some [])"
| "drop_underscores prev (c # cs) =
     (if c = CHR ''_'' then (if is_digit prev then drop_underscores c cs else None)
      else if prev = CHR ''_'' \<and> \<not> is_digit c then None
      else map_option ((#) c) (drop_underscores c cs))"

definition is_space :: "char \<Rightarrow> bool" where
  "is_space c = (c \<in> set [CHR '' '', CHR 0x09, CHR 0x0A, CHR 0x0B, CHR 0x0C, CHR 0x0D])"

definition strip :: "string \<Rightarrow> string" where
  "strip s = rev (dropWhile is_space (rev (dropWhile is_space s)))"

definition split_sign :: "string \<Rightarrow> bool \<times> string" where
  "split_sign s =
     (case s of
        [] \<Rightarrow> (False, [])
      | c # cs \<Rightarrow> if c = CHR ''-'' then (True, cs) else if c = CHR ''+'' then (False, cs)
                 else (False, s))"

text \<open>The mantissa \<open>digits\<close>, \<open>digits.\<close>, \<open>.digits\<close> or \<open>digits.digits\<close>.\<close>

definition mantissa_val :: "string \<Rightarrow> rat option" where
  "mantissa_val m =
     (let ip = takeWhile (\<lambda>c. c \<noteq> CHR ''.'') m;
          rest = dropWhile (\<lambda>c. c \<noteq> CHR ''.'') m
      in case rest of
           [] \<Rightarrow> (if ip = [] then None else map_option of_int (digits_val 0 ip))
         | _ # fp \<Rightarrow>
             (if ip = [] \<and> fp = [] then None
              else case (digits_val 0 ip, digits_val 0 fp) of
                     (Some i, Some f) \<Rightarrow> Some (of_int i + of_int f / 10 ^ length fp)
                   | _ \<Rightarrow> None))"

definition exponent_val :: "string \<Rightarrow> int option" where
  "exponent_val x =
     (let (neg, ds) = split_sign x
      in if ds = [] then None
         else map_option (\<lambda>n. if neg then - n else n) (digits_val 0 ds))"

definition is_e :: "char \<Rightarrow> bool" where
  "is_e c = (c = CHR ''e'' \<or> c = CHR ''E'')"

text \<open>The exact value of an unsigned decimal literal.\<close>

definition decimal_val :: "string \<Rightarrow> rat option" where
  "decimal_val u =
     (let m = takeWhile (\<lambda>c. \<not> is_e c) u;
          rest = dropWhile (\<lambda>c. \<not> is_e c) u;
          ex = (case rest of [] \<Rightarrow> Some 0 | _ # x \<Rightarrow> exponent_val x)
      in case (mantissa_val m, ex) of
           (Some r, Some k) \<Rightarrow> Some (r * (if 0 \<le> k then 10 ^ nat k else 1 / 10 ^ nat (- k)))
         | _ \<Rightarrow> None)"

text \<open>The number of binary digits of a positive integer.\<close>

function bit_length :: "int \<Rightarrow> int" where
  "bit_length n = (if n \<le> 0 then 0 else 1 + bit_length (n div 2))"
  by pat_completeness auto

termination
  by (relation "measure nat") auto

declare bit_length.simps [simp del]

definition pow2 :: "int \<Rightarrow> rat" where
  "pow2 e = (if 0 \<le> e then 2 ^ nat e else 1 / 2 ^ nat (- e))"

text \<open>For \<open>q > 0\<close>, the exponent \<open>k\<close> with \<open>2\<^sup>k \<le> q < 2\<^sup>k\<^sup>+\<^sup>1\<close>.\<close>

definition floor_log2 :: "rat \<Rightarrow> int" where
  "floor_log2 q =
     (if 1 \<le> q then bit_length \<lfloor>q\<rfloor> - 1 else - bit_length (\<lceil>1 / q\<rceil> - 1))"

definition round_half_even :: "rat \<Rightarrow> int" where
  "round_half_even x =
     (let f = \<lfloor>x\<rfloor>; d = x - of_int f
      in if d < 1 / 2 then f else if 1 / 2 < d then f + 1
         else if even f then f else f + 1)"

text \<open>
  The double nearest to the magnitude \<open>q\<close>, ties to the even significand, with the sign
  \<open>neg\<close>: a significand of 53 bits, the least exponent \<open>-1074\<close> of the subnormal numbers, a
  signed zero on underflow and an infinity from \<open>2\<^sup>1\<^sup>0\<^sup>2\<^sup>4\<close> on.
\<close>

definition round_double :: "bool \<Rightarrow> rat \<Rightarrow> pyfloat" where
  "round_double neg q =
     (let e = max (floor_log2 q - 52) (- 1074);
          m = (if q = 0 then 0 else round_half_even (q / pow2 e));
          r = of_int m * pow2 e
      in if m = 0 then (if neg then FNegZero else FNum 0)
         else if pow2 1024 \<le> r then (if neg then FNegInf else FInf)
         else FNum (if neg then - r else r))"

definition py_float :: "string \<Rightarrow> pyfloat option" where
  "py_float s =
     (case drop_underscores (CHR 0x00) s of
        None \<Rightarrow> None
      | Some t \<Rightarrow>
          (let (neg, u) = split_sign (strip t)
           in if lower u = ''inf'' \<or> lower u = ''infinity''
              then Some (if neg then FNegInf else FInf)
              else if lower u = ''nan'' then Some FNaN
              else map_option (round_double neg) (decimal_val u)))"

subsection \<open>Validators\<close>

text \<open>\<open>value < 0\<close> on a numeric value; a boolean counts as 0 or 1.\<close>

fun below_zero :: "pyval \<Rightarrow> bool" where
  "below_zero (PInt n) = (n < 0)"
| "below_zero (PFloat x) = float_below_zero x"
| "below_zero v = False"

text \<open>
  \<open>validators.numeric(value, allow_empty, minimum)\<close> with \<open>minimum\<close> absent (\<open>False\<close>) or
  \<open>0\<close> (\<open>True\<close>): \<open>None\<close> is the only empty value, a string is converted with \<open>float\<close>, any
  other number (booleans included, which are integers in Python) passes unchanged.
\<close>

definition validators_numeric :: "pyval \<Rightarrow> bool \<Rightarrow> bool \<Rightarrow> error + pyval" where
  "validators_numeric v allow_empty min0 =
     (if v = PNone then (if allow_empty then Inr PNone else Inl EmptyValueError)
      else case (case v of
                   PStr s \<Rightarrow> (case py_float s of None \<Rightarrow> Inl CannotCoerceError
                                             | Some x \<Rightarrow> Inr (PFloat x))
                 | PInt n \<Rightarrow> Inr (PInt n)
                 | PFloat x \<Rightarrow> Inr (PFloat x)
                 | PBool b \<Rightarrow> Inr (PBool b)
                 | _ \<Rightarrow> Inl CannotCoerceError) of
             Inl e \<Rightarrow> Inl e
           | Inr n \<Rightarrow> if min0 \<and> below_zero n then Inl MinimumValueError else Inr n)"

text \<open>
  \<open>validators.integer(value, allow_empty, coerce_value, minimum)\<close>: the numeric validator
  first; a float with a whole value becomes that integer, any other float is rounded up
  by \<open>math.ceil\<close> with \<open>coerce_value\<close>, which fails on an infinity and on NaN, and is
  rejected without it.
\<close>

definition validators_integer :: "pyval \<Rightarrow> bool \<Rightarrow> bool \<Rightarrow> bool \<Rightarrow> error + pyval" where
  "validators_integer v allow_empty coerce_value min0 =
     (case validators_numeric v allow_empty min0 of
        Inl e \<Rightarrow> Inl e
      | Inr (PFloat x) \<Rightarrow>
          (case x of
             FNum r \<Rightarrow>
               (if of_int \<lfloor>r\<rfloor> = r then Inr (PInt \<lfloor>r\<rfloor>)
                else if coerce_value then Inr (PInt \<lceil>r\<rceil>)
                else Inl NotAnIntegerError)
           | FNegZero \<Rightarrow> Inr (PInt 0)
           | FNaN \<Rightarrow> if coerce_value then Inl ValueError else Inl NotAnIntegerError
           | _ \<Rightarrow> if coerce_value then Inl OverflowError else Inl NotAnIntegerError)
      | Inr n \<Rightarrow> Inr n)"

text \<open>
  \<open>validators.string(value, allow_empty)\<close>, never called here with \<open>coerce_value\<close>: every
  falsy value is empty, and a value that is not a string is not coerced.
\<close>

definition validators_string :: "pyval \<Rightarrow> bool \<Rightarrow> error + pyval" where
  "validators_string v allow_empty =
     (if \<not> truthy v then (if allow_empty then Inr PNone else Inl EmptyValueError)
      else case v of PStr s \<Rightarrow> Inr (PStr s) | _ \<Rightarrow> Inl CannotCoerceError)"

text \<open>
  \<open>validators.iterable(value)\<close> with the default \<open>forbid_literals\<close> (strings): lists and
  dictionaries are iterable.
\<close>

definition validators_iterable :: "pyval \<Rightarrow> bool \<Rightarrow> error + pyval" where
  "validators_iterable v allow_empty =
     (if \<not> truthy v \<and> \<not> allow_empty then Inl EmptyValueError
      else case v of
             PNone \<Rightarrow> Inr PNone
           | PList xs \<Rightarrow> Inr (PList xs)
           | PDict d \<Rightarrow> Inr (PDict d)
           | _ \<Rightarrow> Inl NotAnIterableError)"

section \<open>Collaborators outside the sources\<close>

text \<open>
  The sources call code that is not part of them: the JSON decoder behind
  \<open>validators.dict\<close>, the classes \<open>Gradient\<close>, \<open>Pattern\<close>, \<open>Position\<close>, \<open>BreadcrumbEvents\<close>,
  \<open>ShadowOptions\<close>, and the parent classes of the series options and data points. They
  are parameters of the model, so every statement below holds for all of them.
  \<^item> \<open>dict_of_json s\<close> is what \<open>validators.dict\<close> makes of the non-empty string \<open>s\<close>;
  \<^item> \<open>extern name value\<close> is a class method or constructor of an absent class called on
    \<open>value\<close>, returning the attributes of the instance it creates;
  \<^item> \<open>parent_init cls kwargs\<close> is the parent's constructor on the keyword arguments the
    subclass passes up, returning the attributes the parent class keeps;
  \<^item> \<open>parent_to_dict cls self\<close> is the parent's \<open>to_dict\<close>;
  \<^item> \<open>lower_node value\<close> is \<open>to_dict\<close> of a nested node, used when a dictionary is trimmed.
\<close>

record env =
  dict_of_json :: "string \<Rightarrow> error + (string \<times> pyval) list"
  extern :: "string \<Rightarrow> pyval \<Rightarrow> error + obj"
  parent_init :: "string \<Rightarrow> (string \<times> pyval) list \<Rightarrow> error + obj"
  parent_to_dict :: "string \<Rightarrow> obj \<Rightarrow> error + (string \<times> pyval) list"
  lower_node :: "string \<Rightarrow> obj \<Rightarrow> error + pyval"

text \<open>
  \<open>validators.dict(value, allow_empty)\<close>: every falsy value is empty; a string is decoded
  as JSON; anything else that is not a dictionary is rejected.
\<close>

definition validators_dict :: "env \<Rightarrow> pyval \<Rightarrow> bool \<Rightarrow> error + pyval" where
  "validators_dict E v allow_empty =
     (if \<not> truthy v then (if allow_empty then Inr PNone else Inl EmptyValueError)
      else case v of
             PStr s \<Rightarrow> (case dict_of_json E s of Inl e \<Rightarrow> Inl e | Inr d \<Rightarrow> Inr (PDict d))
           | PDict d \<Rightarrow> Inr (PDict d)
           | _ \<Rightarrow> Inl NotADictError)"

text \<open>
  Modelled from the spec: the decorator \<open>class_sensitive(T)\<close> of \<open>highcharts.decorators\<close>,
  which is not among the sources. Following the setter contract for a single nested node,
  a value already of the node type is stored as it is, a dictionary is converted by the
  node type's \<open>from_dict\<close>, \<open>None\<close> stays unset and anything else fails.
\<close>

definition class_sensitive ::
  "string \<Rightarrow> ((string \<times> pyval) list \<Rightarrow> error + obj) \<Rightarrow> pyval \<Rightarrow> error + pyval" where
  "class_sensitive T from_dict v =
     (case v of
        PNone \<Rightarrow> Inr PNone
      | PObj c a \<Rightarrow> if c = T then Inr (PObj c a) else Inl TypeConversionError
      | PDict d \<Rightarrow> (case from_dict d of Inl e \<Rightarrow> Inl e | Inr a \<Rightarrow> Inr (PObj T a))
      | _ \<Rightarrow> Inl TypeConversionError)"

text \<open>Sequencing of calls that may raise.\<close>

definition and_then :: "error + 'a \<Rightarrow> ('a \<Rightarrow> error + 'b) \<Rightarrow> error + 'b" where
  "and_then r f = (case r of Inl e \<Rightarrow> Inl e | Inr x \<Rightarrow> f x)"

text \<open>
  Modelled from the spec: \<open>HighchartsMeta.trim_dict\<close>, which is not among the sources.
  Following the trimming invariant, a nested node is lowered by its own \<open>to_dict\<close>, and an
  entry whose value is \<open>None\<close>, an empty string or an empty collection is left out.
\<close>

fun is_empty_value :: "pyval \<Rightarrow> bool" where
  "is_empty_value PNone = True"
| "is_empty_value (PStr s) = (s = [])"
| "is_empty_value (PList xs) = (xs = [])"
| "is_empty_value (PDict d) = (d = [])"
| "is_empty_value v = False"

definition lower_value :: "env \<Rightarrow> pyval \<Rightarrow> error + pyval" where
  "lower_value E v = (case v of PObj c a \<Rightarrow> lower_node E c a | _ \<Rightarrow> Inr v)"

fun trim_dict :: "env \<Rightarrow> (string \<times> pyval) list \<Rightarrow> error + (string \<times> pyval) list" where
  "trim_dict E [] = Inr []"
| "trim_dict E ((k, v) # d) =
     and_then (lower_value E v) (\<lambda>v'.
     and_then (trim_dict E d) (\<lambda>d'.
       Inr (if is_empty_value v' then d' else (k, v') # d')))"

section \<open>Breadcrumbs (\<open>utility_classes/breadcrumbs.py\<close>)\<close>

subsection \<open>\<open>Separator\<close>\<close>

definition Separator_style_setter :: "env \<Rightarrow> pyval \<Rightarrow> obj \<Rightarrow> outcome" where
  "Separator_style_setter E v = assign ''_style'' (validators_dict E v False)"

definition Separator_text_setter :: "pyval \<Rightarrow> obj \<Rightarrow> outcome" where
  "Separator_text_setter v = assign ''_text'' (validators_string v True)"

definition Separator_style :: "obj \<Rightarrow> error + pyval" where
  "Separator_style s = getattr s ''_style''"

definition Separator_text :: "obj \<Rightarrow> error + pyval" where
  "Separator_text s = getattr s ''_text''"

definition Separator_attrs0 :: obj where
  "Separator_attrs0 = [(''_style'', PNone), (''_text'', PNone)]"

definition Separator_setters :: "env \<Rightarrow> (string \<times> pyval) list \<Rightarrow> (obj \<Rightarrow> outcome) list" where
  "Separator_setters E kwargs =
     [Separator_style_setter E (pop kwargs ''style'' PNone),
      Separator_text_setter (pop kwargs ''text'' PNone)]"

definition Separator_init :: "env \<Rightarrow> (string \<times> pyval) list \<Rightarrow> error + obj" where
  "Separator_init E kwargs =
     construct (run_all (Separator_setters E kwargs) Separator_attrs0)"

definition Separator_from_dict :: "env \<Rightarrow> (string \<times> pyval) list \<Rightarrow> error + obj" where
  "Separator_from_dict E as_dict =
     Separator_init E
       [(''style'', pop as_dict ''style'' PNone),
        (''text'', pop as_dict ''text'' PNone)]"

subsection \<open>\<open>BreadcrumbOptions\<close>\<close>

definition BreadcrumbOptions_button_spacing_setter :: "pyval \<Rightarrow> obj \<Rightarrow> outcome" where
  "BreadcrumbOptions_button_spacing_setter v =
     assign ''_button_spacing'' (validators_numeric v True False)"

text \<open>The property \<open>button_theme\<close> is backed by the attribute \<open>_theme\<close>.\<close>

definition BreadcrumbOptions_button_theme_setter :: "env \<Rightarrow> pyval \<Rightarrow> obj \<Rightarrow> outcome" where
  "BreadcrumbOptions_button_theme_setter E v = assign ''_theme'' (validators_dict E v True)"

definition BreadcrumbOptions_events_setter :: "env \<Rightarrow> pyval \<Rightarrow> obj \<Rightarrow> outcome" where
  "BreadcrumbOptions_events_setter E v =
     assign ''_events''
       (class_sensitive ''BreadcrumbEvents''
          (\<lambda>d. extern E ''BreadcrumbEvents.from_dict'' (PDict d)) v)"

definition BreadcrumbOptions_floating_setter :: "pyval \<Rightarrow> obj \<Rightarrow> outcome" where
  "BreadcrumbOptions_floating_setter v =
     (if v = PNone then store ''_floating'' PNone else store ''_floating'' (py_bool v))"

definition BreadcrumbOptions_format_setter :: "pyval \<Rightarrow> obj \<Rightarrow> outcome" where
  "BreadcrumbOptions_format_setter v = assign ''_format'' (validators_string v True)"

definition BreadcrumbOptions_formatter_setter :: "pyval \<Rightarrow> obj \<Rightarrow> outcome" where
  "BreadcrumbOptions_formatter_setter v = assign ''_formatter'' (validators_string v True)"

definition BreadcrumbOptions_position_setter :: "env \<Rightarrow> pyval \<Rightarrow> obj \<Rightarrow> outcome" where
  "BreadcrumbOptions_position_setter E v =
     assign ''_position''
       (class_sensitive ''Position'' (\<lambda>d. extern E ''Position.from_dict'' (PDict d)) v)"

definition BreadcrumbOptions_relative_to_setter :: "pyval \<Rightarrow> obj \<Rightarrow> outcome" where
  "BreadcrumbOptions_relative_to_setter v s =
     (if \<not> truthy v then store ''_relative_to'' PNone s
      else case validators_string v False of
             Inl e \<Rightarrow> raises e s
           | Inr (PStr str) \<Rightarrow>
               (let value = lower str
                in if value \<notin> set [''plot'', ''chart'', ''plotBox'', ''spacingBox'']
                   then raises HighchartsValueError s
                   else store ''_relative_to'' (PStr value) s)
           | Inr _ \<Rightarrow> raises AttributeError s)"

definition BreadcrumbOptions_rtl_setter :: "pyval \<Rightarrow> obj \<Rightarrow> outcome" where
  "BreadcrumbOptions_rtl_setter v =
     (if v = PNone then store ''_rtl'' PNone else store ''_rtl'' (py_bool v))"

definition BreadcrumbOptions_separator_setter :: "env \<Rightarrow> pyval \<Rightarrow> obj \<Rightarrow> outcome" where
  "BreadcrumbOptions_separator_setter E v =
     assign ''_separator'' (class_sensitive ''Separator'' (Separator_from_dict E) v)"

definition BreadcrumbOptions_show_full_path_setter :: "pyval \<Rightarrow> obj \<Rightarrow> outcome" where
  "BreadcrumbOptions_show_full_path_setter v =
     (if v = PNone then store ''_show_full_path'' PNone
      else store ''_show_full_path'' (py_bool v))"

definition BreadcrumbOptions_style_setter :: "env \<Rightarrow> pyval \<Rightarrow> obj \<Rightarrow> outcome" where
  "BreadcrumbOptions_style_setter E v = assign ''_style'' (validators_dict E v True)"

definition BreadcrumbOptions_use_html_setter :: "pyval \<Rightarrow> obj \<Rightarrow> outcome" where
  "BreadcrumbOptions_use_html_setter v =
     (if v = PNone then store ''_use_html'' PNone else store ''_use_html'' (py_bool v))"

text \<open>The setter of \<open>z_index\<close> validates and rebinds its local \<open>value\<close>; it has no
  assignment to the instance.\<close>

definition BreadcrumbOptions_z_index_setter :: "pyval \<Rightarrow> obj \<Rightarrow> outcome" where
  "BreadcrumbOptions_z_index_setter v s =
     (case validators_integer v True False False of
        Inl e \<Rightarrow> raises e s
      | Inr value \<Rightarrow> (None, s))"

definition BreadcrumbOptions_button_theme :: "obj \<Rightarrow> error + pyval" where
  "BreadcrumbOptions_button_theme s = getattr s ''_theme''"

definition BreadcrumbOptions_relative_to :: "obj \<Rightarrow> error + pyval" where
  "BreadcrumbOptions_relative_to s = getattr s ''_relative_to''"

definition BreadcrumbOptions_z_index :: "obj \<Rightarrow> error + pyval" where
  "BreadcrumbOptions_z_index s = getattr s ''_z_index''"

definition BreadcrumbOptions_attrs0 :: obj where
  "BreadcrumbOptions_attrs0 =
     [(''_button_spacing'', PNone), (''_button_theme'', PNone), (''_events'', PNone),
      (''_floating'', PNone), (''_format'', PNone), (''_formatter'', PNone),
      (''_position'', PNone), (''_relative_to'', PNone), (''_rtl'', PNone),
      (''_separator'', PNone), (''_show_full_path'', PNone), (''_style'', PNone),
      (''_use_html'', PNone), (''_z_index'', PNone)]"

definition BreadcrumbOptions_setters ::
  "env \<Rightarrow> (string \<times> pyval) list \<Rightarrow> (obj \<Rightarrow> outcome) list" where
  "BreadcrumbOptions_setters E kwargs =
     [BreadcrumbOptions_button_spacing_setter (pop kwargs ''button_spacing'' PNone),
      BreadcrumbOptions_button_theme_setter E (pop kwargs ''button_theme'' PNone),
      BreadcrumbOptions_events_setter E (pop kwargs ''events'' PNone),
      BreadcrumbOptions_floating_setter (pop kwargs ''floating'' PNone),
      BreadcrumbOptions_format_setter (pop kwargs ''format'' PNone),
      BreadcrumbOptions_formatter_setter (pop kwargs ''formatter'' PNone),
      BreadcrumbOptions_position_setter E (pop kwargs ''position'' PNone),
      BreadcrumbOptions_relative_to_setter (pop kwargs ''relative_to'' PNone),
      BreadcrumbOptions_rtl_setter (pop kwargs ''rtl'' PNone),
      BreadcrumbOptions_separator_setter E (pop kwargs ''separator'' PNone),
      BreadcrumbOptions_show_full_path_setter (pop kwargs ''show_full_path'' PNone),
      BreadcrumbOptions_style_setter E (pop kwargs ''style'' PNone),
      BreadcrumbOptions_use_html_setter (pop kwargs ''use_html'' PNone),
      BreadcrumbOptions_z_index_setter (pop kwargs ''z_index'' PNone)]"

definition BreadcrumbOptions_init :: "env \<Rightarrow> (string \<times> pyval) list \<Rightarrow> error + obj" where
  "BreadcrumbOptions_init E kwargs =
     construct (run_all (BreadcrumbOptions_setters E kwargs) BreadcrumbOptions_attrs0)"

definition BreadcrumbOptions_from_dict :: "env \<Rightarrow> (string \<times> pyval) list \<Rightarrow> error + obj" where
  "BreadcrumbOptions_from_dict E as_dict =
     BreadcrumbOptions_init E
       [(''button_spacing'', pop as_dict ''buttonSpacing'' PNone),
        (''button_theme'', pop as_dict ''buttonTheme'' PNone),
        (''events'', pop as_dict ''events'' PNone),
        (''floating'', pop as_dict ''floating'' PNone),
        (''format'', pop as_dict ''format'' PNone),
        (''formatter'', pop as_dict ''formatter'' PNone),
        (''position'', pop as_dict ''position'' PNone),
        (''relative_to'', pop as_dict ''relativeTo'' PNone),
        (''rtl'', pop as_dict ''rtl'' PNone),
        (''separator'', pop as_dict ''separator'' PNone),
        (''show_full_path'', pop as_dict ''showFullPath'' PNone),
        (''style'', pop as_dict ''style'' PNone),
        (''use_html'', pop as_dict ''useHTML'' PNone),
        (''z_index'', pop as_dict ''zIndex'' PNone)]"

definition BreadcrumbOptions_to_untrimmed_dict :: "obj \<Rightarrow> error + (string \<times> pyval) list" where
  "BreadcrumbOptions_to_untrimmed_dict s =
     and_then (getattr s ''_button_spacing'') (\<lambda>button_spacing.
     and_then (BreadcrumbOptions_button_theme s) (\<lambda>button_theme.
     and_then (getattr s ''_events'') (\<lambda>events.
     and_then (getattr s ''_floating'') (\<lambda>floating.
     and_then (getattr s ''_format'') (\<lambda>format.
     and_then (getattr s ''_formatter'') (\<lambda>formatter.
     and_then (getattr s ''_position'') (\<lambda>position.
     and_then (BreadcrumbOptions_relative_to s) (\<lambda>relative_to.
     and_then (getattr s ''_rtl'') (\<lambda>rtl.
     and_then (getattr s ''_separator'') (\<lambda>separator.
     and_then (getattr s ''_show_full_path'') (\<lambda>show_full_path.
     and_then (getattr s ''_style'') (\<lambda>style.
     and_then (getattr s ''_use_html'') (\<lambda>use_html.
     and_then (BreadcrumbOptions_z_index s) (\<lambda>z_index.
       Inr [(''buttonSpacing'', button_spacing), (''buttonTheme'', button_theme),
            (''events'', events), (''floating'', floating), (''format'', format),
            (''formatter'', formatter), (''position'', position),
            (''relativeTo'', relative_to), (''rtl'', rtl), (''separator'', separator),
            (''showFullPath'', show_full_path), (''style'', style),
            (''useHTML'', use_html), (''zIndex'', z_index)]))))))))))))))"

text \<open>
  The instances of \<open>BreadcrumbOptions\<close>: what the constructor returns, and what a property
  assignment leaves of an instance, whether it raised or not.
\<close>

inductive BreadcrumbOptions_instance :: "env \<Rightarrow> obj \<Rightarrow> bool" for E :: env where
  created: "BreadcrumbOptions_init E kwargs = Inr s \<Longrightarrow> BreadcrumbOptions_instance E s"
| assigned: "BreadcrumbOptions_instance E s \<Longrightarrow>
     f \<in> set (BreadcrumbOptions_setters E kwargs) \<Longrightarrow>
     BreadcrumbOptions_instance E (snd (f s))"

section \<open>The reset-zoom button (\<open>chart/reset_zoom_button.py\<close>)\<close>

definition ResetZoomButtonOptions_position_setter :: "env \<Rightarrow> pyval \<Rightarrow> obj \<Rightarrow> outcome" where
  "ResetZoomButtonOptions_position_setter E v =
     assign ''_position''
       (class_sensitive ''Position'' (\<lambda>d. extern E ''Position.from_dict'' (PDict d)) v)"

definition ResetZoomButtonOptions_relative_to_setter :: "pyval \<Rightarrow> obj \<Rightarrow> outcome" where
  "ResetZoomButtonOptions_relative_to_setter v s =
     (if \<not> truthy v then store ''_relative_to'' PNone s
      else case validators_string v False of
             Inl e \<Rightarrow> raises e s
           | Inr (PStr str) \<Rightarrow>
               (let value = lower str
                in if value \<notin> set [''plot'', ''chart'', ''plotBox'', ''spacingBox'']
                   then raises HighchartsValueError s
                   else store ''_relative_to'' (PStr value) s)
           | Inr _ \<Rightarrow> raises AttributeError s)"

definition ResetZoomButtonOptions_theme_setter :: "env \<Rightarrow> pyval \<Rightarrow> obj \<Rightarrow> outcome" where
  "ResetZoomButtonOptions_theme_setter E v = assign ''_theme'' (validators_dict E v True)"

definition ResetZoomButtonOptions_setters ::
  "env \<Rightarrow> (string \<times> pyval) list \<Rightarrow> (obj \<Rightarrow> outcome) list" where
  "ResetZoomButtonOptions_setters E kwargs =
     [ResetZoomButtonOptions_position_setter E (pop kwargs ''position'' PNone),
      ResetZoomButtonOptions_relative_to_setter (pop kwargs ''relative_to'' PNone),
      ResetZoomButtonOptions_theme_setter E (pop kwargs ''theme'' PNone)]"

definition ResetZoomButtonOptions_attrs0 :: obj where
  "ResetZoomButtonOptions_attrs0 =
     [(''_position'', PNone), (''_relative_to'', PNone), (''_theme'', PNone)]"

definition ResetZoomButtonOptions_init :: "env \<Rightarrow> (string \<times> pyval) list \<Rightarrow> error + obj" where
  "ResetZoomButtonOptions_init E kwargs =
     construct (run_all (ResetZoomButtonOptions_setters E kwargs)
       ResetZoomButtonOptions_attrs0)"

definition ResetZoomButtonOptions_from_dict ::
  "env \<Rightarrow> (string \<times> pyval) list \<Rightarrow> error + obj" where
  "ResetZoomButtonOptions_from_dict E as_dict =
     ResetZoomButtonOptions_init E
       [(''position'', pop as_dict ''position'' PNone),
        (''relative_to'', pop as_dict ''relativeTo'' PNone),
        (''theme'', pop as_dict ''theme'' PNone)]"

section \<open>Series navigation (\<open>accessibility/keyboard_navigation/series_navigation.py\<close>)\<close>

definition SeriesNavigation_mode_setter :: "pyval \<Rightarrow> obj \<Rightarrow> outcome" where
  "SeriesNavigation_mode_setter v s =
     (case validators_string v False of
        Inl e \<Rightarrow> raises e s
      | Inr (PStr str) \<Rightarrow>
          (let value = lower str
           in if value \<notin> set [''normal'', ''serialize'']
              then raises HighchartsValueError s
              else store ''_mode'' (PStr value) s)
      | Inr _ \<Rightarrow> raises AttributeError s)"

definition SeriesNavigation_point_navigation_enabled_threshold_setter ::
  "pyval \<Rightarrow> obj \<Rightarrow> outcome" where
  "SeriesNavigation_point_navigation_enabled_threshold_setter v =
     (if v = PBool False then store ''_point_navigation_enabled_threshold'' (PBool False)
      else assign ''_point_navigation_enabled_threshold''
             (validators_integer v False True False))"

definition SeriesNavigation_remember_point_focus_setter :: "pyval \<Rightarrow> obj \<Rightarrow> outcome" where
  "SeriesNavigation_remember_point_focus_setter v = store ''_remember_point_focus'' (py_bool v)"

definition SeriesNavigation_skip_null_points_setter :: "pyval \<Rightarrow> obj \<Rightarrow> outcome" where
  "SeriesNavigation_skip_null_points_setter v = store ''_skip_null_points'' (py_bool v)"

definition SeriesNavigation_mode :: "obj \<Rightarrow> error + pyval" where
  "SeriesNavigation_mode s = getattr s ''_mode''"

definition SeriesNavigation_point_navigation_enabled_threshold :: "obj \<Rightarrow> error + pyval" where
  "SeriesNavigation_point_navigation_enabled_threshold s =
     getattr s ''_point_navigation_enabled_threshold''"

text \<open>The getter of \<open>remember_point_focus\<close> returns \<open>self.point_focus\<close>. The class has no
  property or method of that name, so the lookup goes to the instance's attributes.\<close>

definition SeriesNavigation_remember_point_focus :: "obj \<Rightarrow> error + pyval" where
  "SeriesNavigation_remember_point_focus s = getattr s ''point_focus''"

definition SeriesNavigation_skip_null_points :: "obj \<Rightarrow> error + pyval" where
  "SeriesNavigation_skip_null_points s = getattr s ''_skip_null_points''"

definition SeriesNavigation_setters :: "(string \<times> pyval) list \<Rightarrow> (obj \<Rightarrow> outcome) list" where
  "SeriesNavigation_setters kwargs =
     [SeriesNavigation_mode_setter (pop kwargs ''mode'' (PStr ''normal'')),
      SeriesNavigation_point_navigation_enabled_threshold_setter
        (pop kwargs ''point_navigation_enabled_threshold'' (PBool False)),
      SeriesNavigation_remember_point_focus_setter
        (pop kwargs ''remember_point_focus'' (PBool False)),
      SeriesNavigation_skip_null_points_setter (pop kwargs ''skip_null_points'' (PBool True))]"

definition SeriesNavigation_attrs0 :: obj where
  "SeriesNavigation_attrs0 =
     [(''_mode'', PStr ''normal''),
      (''_point_navigation_enabled_threshold'', PBool False),
      (''_remember_point_focus'', PBool False),
      (''_skip_null_points'', PBool True)]"

definition SeriesNavigation_init :: "(string \<times> pyval) list \<Rightarrow> error + obj" where
  "SeriesNavigation_init kwargs =
     construct (run_all (SeriesNavigation_setters kwargs) SeriesNavigation_attrs0)"

definition SeriesNavigation_from_dict :: "(string \<times> pyval) list \<Rightarrow> error + obj" where
  "SeriesNavigation_from_dict as_dict =
     SeriesNavigation_init
       [(''mode'', pop as_dict ''mode'' (PStr ''normal'')),
        (''point_navigation_enabled_threshold'',
           pop as_dict ''pointNavigationEnabledThreshold'' (PBool False)),
        (''remember_point_focus'', pop as_dict ''rememberPointFocus'' (PBool False)),
        (''skip_null_points'', pop as_dict ''skipNullPoints'' (PBool True))]"

text \<open>\<open>to_dict\<close> evaluates the entries of its dictionary display in order; the third reads
  \<open>self.remmeber_point_focus\<close>, again a name the class does not define.\<close>

definition SeriesNavigation_to_dict :: "env \<Rightarrow> obj \<Rightarrow> error + (string \<times> pyval) list" where
  "SeriesNavigation_to_dict E s =
     and_then (SeriesNavigation_mode s) (\<lambda>mode.
     and_then (SeriesNavigation_point_navigation_enabled_threshold s) (\<lambda>threshold.
     and_then (getattr s ''remmeber_point_focus'') (\<lambda>remember.
     and_then (SeriesNavigation_skip_null_points s) (\<lambda>skip.
       trim_dict E
         [(''mode'', mode), (''pointNavigationEnabledThreshold'', threshold),
          (''rememberPointFocus'', remember), (''skipNullPoints'', skip)]))))"

inductive SeriesNavigation_instance :: "obj \<Rightarrow> bool" where
  created: "SeriesNavigation_init kwargs = Inr s \<Longrightarrow> SeriesNavigation_instance s"
| assigned: "SeriesNavigation_instance s \<Longrightarrow> f \<in> set (SeriesNavigation_setters kwargs) \<Longrightarrow>
     SeriesNavigation_instance (snd (f s))"

section \<open>Gauges (\<open>plot_options/gauge.py\<close>)\<close>

subsection \<open>Colour fields\<close>

definition is_dict :: "pyval \<Rightarrow> bool" where
  "is_dict v = (case v of PDict d \<Rightarrow> True | _ \<Rightarrow> False)"

definition is_str :: "pyval \<Rightarrow> bool" where
  "is_str v = (case v of PStr s \<Rightarrow> True | _ \<Rightarrow> False)"

definition is_instance :: "pyval \<Rightarrow> string list \<Rightarrow> bool" where
  "is_instance v classes = (case v of PObj c a \<Rightarrow> c \<in> set classes | _ \<Rightarrow> False)"

text \<open>A class method or constructor of an absent class returns an instance of that class.\<close>

definition instance_of :: "string \<Rightarrow> error + obj \<Rightarrow> error + pyval" where
  "instance_of T r = (case r of Inl e \<Rightarrow> Inl e | Inr a \<Rightarrow> Inr (PObj T a))"

text \<open>
  \<open>try: self._k = C.from_json(value)\<close> with its \<open>except ValueError\<close> handler, which turns
  to \<open>C.from_dict\<close> for a dictionary and to \<open>validators.string\<close> for a string.
\<close>

definition from_json_or_fallback :: "env \<Rightarrow> string \<Rightarrow> string \<Rightarrow> pyval \<Rightarrow> obj \<Rightarrow> outcome" where
  "from_json_or_fallback E k C v s =
     (case extern E (C @ ''.from_json'') v of
        Inr a \<Rightarrow> store k (PObj C a) s
      | Inl e \<Rightarrow>
          if is_ValueError e
          then (if is_dict v then assign k (instance_of C (extern E (C @ ''.from_dict'') v)) s
                else assign k (validators_string v False) s)
          else raises e s)"

text \<open>
  The setters of \<open>DialOptions.background_color\<close>, \<open>DialOptions.border_color\<close>,
  \<open>PivotOptions.background_color\<close> and \<open>PivotOptions.border_color\<close> have the same body
  up to the attribute \<open>k\<close> they assign.
\<close>

definition color_setter :: "string \<Rightarrow> env \<Rightarrow> pyval \<Rightarrow> obj \<Rightarrow> outcome" where
  "color_setter k E v s =
     (if \<not> truthy v then store k PNone s
      else if is_instance v [''Gradient'', ''Pattern''] then store k v s
      else if (is_dict v \<or> is_str v) \<and> py_in ''linearGradient'' v
        then from_json_or_fallback E k ''Gradient'' v s
      else if is_dict v \<and> py_in ''linear_gradient'' v
        then assign k (instance_of ''Gradient'' (extern E ''Gradient'' v)) s
      else if (is_dict v \<or> is_str v) \<and> py_in ''patternOptions'' v
        then from_json_or_fallback E k ''Pattern'' v s
      else if is_dict v \<and> py_in ''pattern_options'' v
        then assign k (instance_of ''Pattern'' (extern E ''Pattern'' v)) s
      else raises HighchartsValueError s)"

subsection \<open>\<open>DialOptions\<close>\<close>

definition DialOptions_background_color_setter :: "env \<Rightarrow> pyval \<Rightarrow> obj \<Rightarrow> outcome" where
  "DialOptions_background_color_setter = color_setter ''_background_color''"

definition DialOptions_base_length_setter :: "pyval \<Rightarrow> obj \<Rightarrow> outcome" where
  "DialOptions_base_length_setter v s =
     (if v = PNone then store ''_base_length'' PNone s
      else case validators_string v False of
             Inl e \<Rightarrow> raises e s
           | Inr value \<Rightarrow>
               if \<not> py_in ''%'' value then raises HighchartsValueError s
               else store ''_base_length'' value s)"

definition DialOptions_base_width_setter :: "pyval \<Rightarrow> obj \<Rightarrow> outcome" where
  "DialOptions_base_width_setter v = assign ''_base_width'' (validators_numeric v True True)"

definition DialOptions_border_color_setter :: "env \<Rightarrow> pyval \<Rightarrow> obj \<Rightarrow> outcome" where
  "DialOptions_border_color_setter = color_setter ''_border_color''"

definition DialOptions_border_width_setter :: "pyval \<Rightarrow> obj \<Rightarrow> outcome" where
  "DialOptions_border_width_setter v = assign ''_border_width'' (validators_numeric v True True)"

definition DialOptions_path_setter :: "pyval \<Rightarrow> obj \<Rightarrow> outcome" where
  "DialOptions_path_setter v s =
     (if \<not> truthy v then store ''_path'' PNone s
      else assign ''_path'' (validators_iterable v False) s)"

definition DialOptions_radius_setter :: "pyval \<Rightarrow> obj \<Rightarrow> outcome" where
  "DialOptions_radius_setter v s =
     (if \<not> truthy v then store ''_radius'' PNone s
      else case validators_string v False of
             Inl e \<Rightarrow> raises e s
           | Inr value \<Rightarrow>
               if \<not> py_in ''%'' value then raises HighchartsValueError s
               else store ''_radius'' value s)"

definition DialOptions_rear_length_setter :: "pyval \<Rightarrow> obj \<Rightarrow> outcome" where
  "DialOptions_rear_length_setter v s =
     (if \<not> truthy v then store ''_rear_length'' PNone s
      else case validators_string v False of
             Inl e \<Rightarrow> raises e s
           | Inr value \<Rightarrow>
               if \<not> py_in ''%'' value then raises HighchartsValueError s
               else store ''_rear_length'' value s)"

text \<open>\<open>top_width\<close> calls the numeric validator without \<open>allow_empty\<close>.\<close>

definition DialOptions_top_width_setter :: "pyval \<Rightarrow> obj \<Rightarrow> outcome" where
  "DialOptions_top_width_setter v = assign ''_top_width'' (validators_numeric v False True)"

definition DialOptions_attrs0 :: obj where
  "DialOptions_attrs0 =
     [(''_background_color'', PNone), (''_base_length'', PNone), (''_base_width'', PNone),
      (''_border_color'', PNone), (''_border_width'', PNone), (''_path'', PNone),
      (''_radius'', PNone), (''_rear_length'', PNone), (''_top_width'', PNone)]"

definition DialOptions_setters :: "env \<Rightarrow> (string \<times> pyval) list \<Rightarrow> (obj \<Rightarrow> outcome) list" where
  "DialOptions_setters E kwargs =
     [DialOptions_background_color_setter E (pop kwargs ''background_color'' PNone),
      DialOptions_base_length_setter (pop kwargs ''base_length'' PNone),
      DialOptions_base_width_setter (pop kwargs ''base_width'' PNone),
      DialOptions_border_color_setter E (pop kwargs ''border_color'' PNone),
      DialOptions_border_width_setter (pop kwargs ''border_width'' PNone),
      DialOptions_path_setter (pop kwargs ''path'' PNone),
      DialOptions_radius_setter (pop kwargs ''radius'' PNone),
      DialOptions_rear_length_setter (pop kwargs ''rear_length'' PNone),
      DialOptions_top_width_setter (pop kwargs ''top_width'' PNone)]"

definition DialOptions_init :: "env \<Rightarrow> (string \<times> pyval) list \<Rightarrow> error + obj" where
  "DialOptions_init E kwargs =
     construct (run_all (DialOptions_setters E kwargs) DialOptions_attrs0)"

definition DialOptions_from_dict :: "env \<Rightarrow> (string \<times> pyval) list \<Rightarrow> error + obj" where
  "DialOptions_from_dict E as_dict =
     DialOptions_init E
       [(''background_color'', pop as_dict ''backgroundColor'' PNone),
        (''base_length'', pop as_dict ''baseLength'' PNone),
        (''base_width'', pop as_dict ''baseWidth'' PNone),
        (''border_color'', pop as_dict ''borderColor'' PNone),
        (''border_width'', pop as_dict ''borderWidth'' PNone),
        (''path'', pop as_dict ''path'' PNone),
        (''radius'', pop as_dict ''radius'' PNone),
        (''rear_length'', pop as_dict ''rearLength'' PNone),
        (''top_width'', pop as_dict ''topWidth'' PNone)]"

subsection \<open>\<open>PivotOptions\<close>\<close>

definition PivotOptions_background_color_setter :: "env \<Rightarrow> pyval \<Rightarrow> obj \<Rightarrow> outcome" where
  "PivotOptions_background_color_setter = color_setter ''_background_color''"

definition PivotOptions_border_color_setter :: "env \<Rightarrow> pyval \<Rightarrow> obj \<Rightarrow> outcome" where
  "PivotOptions_border_color_setter = color_setter ''_border_color''"

definition PivotOptions_border_width_setter :: "pyval \<Rightarrow> obj \<Rightarrow> outcome" where
  "PivotOptions_border_width_setter v = assign ''_border_width'' (validators_numeric v True True)"

definition PivotOptions_radius_setter :: "pyval \<Rightarrow> obj \<Rightarrow> outcome" where
  "PivotOptions_radius_setter v = assign ''_radius'' (validators_numeric v True False)"

definition PivotOptions_attrs0 :: obj where
  "PivotOptions_attrs0 =
     [(''_background_color'', PNone), (''_border_color'', PNone),
      (''_border_width'', PNone), (''_radius'', PNone)]"

definition PivotOptions_setters :: "env \<Rightarrow> (string \<times> pyval) list \<Rightarrow> (obj \<Rightarrow> outcome) list" where
  "PivotOptions_setters E kwargs =
     [PivotOptions_background_color_setter E (pop kwargs ''background_color'' PNone),
      PivotOptions_border_color_setter E (pop kwargs ''border_color'' PNone),
      PivotOptions_border_width_setter (pop kwargs ''border_width'' PNone),
      PivotOptions_radius_setter (pop kwargs ''radius'' PNone)]"

definition PivotOptions_init :: "env \<Rightarrow> (string \<times> pyval) list \<Rightarrow> error + obj" where
  "PivotOptions_init E kwargs =
     construct (run_all (PivotOptions_setters E kwargs) PivotOptions_attrs0)"

definition PivotOptions_from_dict :: "env \<Rightarrow> (string \<times> pyval) list \<Rightarrow> error + obj" where
  "PivotOptions_from_dict E as_dict =
     PivotOptions_init E
       [(''background_color'', pop as_dict ''backgroundColor'' PNone),
        (''border_color'', pop as_dict ''borderColor'' PNone),
        (''border_width'', pop as_dict ''borderWidth'' PNone),
        (''radius'', pop as_dict ''radius'' PNone)]"

subsection \<open>\<open>GaugeOptions\<close>\<close>

definition GaugeOptions_color_index_setter :: "pyval \<Rightarrow> obj \<Rightarrow> outcome" where
  "GaugeOptions_color_index_setter v =
     assign ''_color_index'' (validators_integer v True False True)"

definition GaugeOptions_crisp_setter :: "pyval \<Rightarrow> obj \<Rightarrow> outcome" where
  "GaugeOptions_crisp_setter v =
     (if v = PNone then store ''_crisp'' PNone else store ''_crisp'' (py_bool v))"

definition GaugeOptions_dial_setter :: "env \<Rightarrow> pyval \<Rightarrow> obj \<Rightarrow> outcome" where
  "GaugeOptions_dial_setter E v =
     assign ''_dial'' (class_sensitive ''DialOptions'' (DialOptions_from_dict E) v)"

definition GaugeOptions_linecap_setter :: "pyval \<Rightarrow> obj \<Rightarrow> outcome" where
  "GaugeOptions_linecap_setter v = assign ''_linecap'' (validators_string v True)"

definition GaugeOptions_line_width_setter :: "pyval \<Rightarrow> obj \<Rightarrow> outcome" where
  "GaugeOptions_line_width_setter v = assign ''_line_width'' (validators_numeric v True True)"

definition GaugeOptions_overshoot_setter :: "pyval \<Rightarrow> obj \<Rightarrow> outcome" where
  "GaugeOptions_overshoot_setter v = assign ''_overshoot'' (validators_numeric v True True)"

definition GaugeOptions_pivot_setter :: "env \<Rightarrow> pyval \<Rightarrow> obj \<Rightarrow> outcome" where
  "GaugeOptions_pivot_setter E v =
     assign ''_pivot'' (class_sensitive ''PivotOptions'' (PivotOptions_from_dict E) v)"

definition GaugeOptions_point_interval_setter :: "pyval \<Rightarrow> obj \<Rightarrow> outcome" where
  "GaugeOptions_point_interval_setter v =
     assign ''_point_interval'' (validators_numeric v True True)"

definition GaugeOptions_point_interval_unit_setter :: "pyval \<Rightarrow> obj \<Rightarrow> outcome" where
  "GaugeOptions_point_interval_unit_setter v =
     assign ''_point_interval_unit'' (validators_string v True)"

definition GaugeOptions_point_start_setter :: "pyval \<Rightarrow> obj \<Rightarrow> outcome" where
  "GaugeOptions_point_start_setter v =
     assign ''_point_start'' (validators_numeric v True False)"

definition GaugeOptions_relative_x_value_setter :: "pyval \<Rightarrow> obj \<Rightarrow> outcome" where
  "GaugeOptions_relative_x_value_setter v =
     (if v = PNone then store ''_relative_x_value'' PNone
      else store ''_relative_x_value'' (py_bool v))"

text \<open>
  The last branch of the \<open>shadow\<close> setter calls \<open>validate_types(value, types =
  ShadowOptions)\<close>, the function behind the class-sensitive decorator.
\<close>

definition GaugeOptions_shadow_setter :: "env \<Rightarrow> pyval \<Rightarrow> obj \<Rightarrow> outcome" where
  "GaugeOptions_shadow_setter E v s =
     (case v of
        PBool b \<Rightarrow> store ''_shadow'' v s
      | _ \<Rightarrow>
          if \<not> truthy v then store ''_shadow'' PNone s
          else assign ''_shadow''
                 (class_sensitive ''ShadowOptions''
                    (\<lambda>d. extern E ''ShadowOptions.from_dict'' (PDict d)) v) s)"

definition GaugeOptions_wrap_setter :: "pyval \<Rightarrow> obj \<Rightarrow> outcome" where
  "GaugeOptions_wrap_setter v =
     (if v = PNone then store ''_wrap'' PNone else store ''_wrap'' (py_bool v))"

definition GaugeOptions_point_start :: "obj \<Rightarrow> error + pyval" where
  "GaugeOptions_point_start s = getattr s ''_point_start''"

definition GaugeOptions_attrs0 :: obj where
  "GaugeOptions_attrs0 =
     [(''_color_index'', PNone), (''_crisp'', PNone), (''_dial'', PNone),
      (''_linecap'', PNone), (''_line_width'', PNone), (''_overshoot'', PNone),
      (''_pivot'', PNone), (''_point_interval'', PNone), (''_point_interval_unit'', PNone),
      (''_point_start'', PNone), (''_relative_x_value'', PNone), (''_shadow'', PNone),
      (''_wrap'', PNone)]"

definition GaugeOptions_setters :: "env \<Rightarrow> (string \<times> pyval) list \<Rightarrow> (obj \<Rightarrow> outcome) list" where
  "GaugeOptions_setters E kwargs =
     [GaugeOptions_color_index_setter (pop kwargs ''color_index'' PNone),
      GaugeOptions_crisp_setter (pop kwargs ''crisp'' PNone),
      GaugeOptions_dial_setter E (pop kwargs ''dial'' PNone),
      GaugeOptions_linecap_setter (pop kwargs ''linecap'' PNone),
      GaugeOptions_line_width_setter (pop kwargs ''line_width'' PNone),
      GaugeOptions_overshoot_setter (pop kwargs ''overshoot'' PNone),
      GaugeOptions_pivot_setter E (pop kwargs ''pivot'' PNone),
      GaugeOptions_point_interval_setter (pop kwargs ''point_interval'' PNone),
      GaugeOptions_point_interval_unit_setter (pop kwargs ''point_interval_unit'' PNone),
      GaugeOptions_point_start_setter (pop kwargs ''point_start'' PNone),
      GaugeOptions_relative_x_value_setter (pop kwargs ''relative_x_value'' PNone),
      GaugeOptions_shadow_setter E (pop kwargs ''shadow'' PNone),
      GaugeOptions_wrap_setter (pop kwargs ''wrap'' PNone)]"

text \<open>
  A subclass constructor pops its own keywords, runs its own setters and passes what is
  left of \<open>kwargs\<close> to the parent's constructor. The instance holds the subclass's
  attributes and the parent's.
\<close>

definition without_keys :: "string list \<Rightarrow> (string \<times> pyval) list \<Rightarrow> (string \<times> pyval) list" where
  "without_keys ks kwargs = filter (\<lambda>p. fst p \<notin> set ks) kwargs"

definition subclass_init ::
  "env \<Rightarrow> string \<Rightarrow> string list \<Rightarrow> (obj \<Rightarrow> outcome) list \<Rightarrow> obj \<Rightarrow>
   (string \<times> pyval) list \<Rightarrow> error + obj" where
  "subclass_init E parent own_keys own_setters attrs0 kwargs =
     and_then (construct (run_all own_setters attrs0)) (\<lambda>s.
     and_then (parent_init E parent (without_keys own_keys kwargs)) (\<lambda>p.
       Inr (s @ p)))"

definition GaugeOptions_init :: "env \<Rightarrow> (string \<times> pyval) list \<Rightarrow> error + obj" where
  "GaugeOptions_init E kwargs =
     subclass_init E ''GenericTypeOptions''
       [''color_index'', ''crisp'', ''dial'', ''linecap'', ''line_width'', ''overshoot'',
        ''pivot'', ''point_interval'', ''point_interval_unit'', ''point_start'',
        ''relative_x_value'', ''shadow'', ''wrap'']
       (GaugeOptions_setters E kwargs) GaugeOptions_attrs0 kwargs"

definition GaugeOptions_get_kwargs_from_dict ::
  "(string \<times> pyval) list \<Rightarrow> (string \<times> pyval) list" where
  "GaugeOptions_get_kwargs_from_dict as_dict =
     [(''accessibility'', pop as_dict ''accessibility'' PNone),
      (''allow_point_select'', pop as_dict ''allowPointSelect'' (PBool False)),
      (''animation'', pop as_dict ''animation'' PNone),
      (''class_name'', pop as_dict ''className'' PNone),
      (''clip'', pop as_dict ''clip'' (PBool True)),
      (''color'', pop as_dict ''color'' PNone),
      (''cursor'', pop as_dict ''cursor'' PNone),
      (''custom'', pop as_dict ''custom'' PNone),
      (''dash_style'', pop as_dict ''dashStyle'' PNone),
      (''data_labels'', pop as_dict ''dataLabels'' PNone),
      (''description'', pop as_dict ''description'' PNone),
      (''enable_mouse_tracking'', pop as_dict ''enableMouseTracking'' (PBool True)),
      (''events'', pop as_dict ''events'' PNone),
      (''include_in_data_export'', pop as_dict ''includeInDataExport'' PNone),
      (''keys'', pop as_dict ''keys'' PNone),
      (''label'', pop as_dict ''label'' PNone),
      (''linked_to'', pop as_dict ''linkedTo'' PNone),
      (''marker'', pop as_dict ''marker'' PNone),
      (''on_point'', pop as_dict ''onPoint'' PNone),
      (''opacity'', pop as_dict ''opacity'' PNone),
      (''point'', pop as_dict ''point'' PNone),
      (''point_description_formatter'', pop as_dict ''pointDescriptionFormatter'' PNone),
      (''selected'', pop as_dict ''selected'' (PBool False)),
      (''show_checkbox'', pop as_dict ''showCheckbox'' (PBool False)),
      (''show_in_legend'', pop as_dict ''showInLegend'' PNone),
      (''skip_keyboard_navigation'', pop as_dict ''skipKeyboardNavigation'' PNone),
      (''states'', pop as_dict ''states'' PNone),
      (''sticky_tracking'', pop as_dict ''stickyTracking'' PNone),
      (''threshold'', pop as_dict ''threshold'' PNone),
      (''tooltip'', pop as_dict ''tooltip'' PNone),
      (''turbo_threshold'', pop as_dict ''turboThreshold'' PNone),
      (''visible'', pop as_dict ''visible'' (PBool True)),
      (''color_index'', pop as_dict ''colorIndex'' PNone),
      (''crisp'', pop as_dict ''crisp'' (PBool True)),
      (''linecap'', pop as_dict ''linecap'' (PStr ''round'')),
      (''line_width'', pop as_dict ''lineWidth'' (PInt 2)),
      (''point_interval'', pop as_dict ''pointInterval'' (PInt 1)),
      (''point_interval_unit'', pop as_dict ''pointIntervalUnit'' PNone),
      (''point_placement'', pop as_dict ''pointPlacement'' PNone),
      (''relative_x_value'', pop as_dict ''relativeXValue'' (PBool False)),
      (''shadow'', pop as_dict ''shadow'' (PBool False)),
      (''dial'', pop as_dict ''dial'' PNone),
      (''overshoot'', pop as_dict ''overshoot'' PNone),
      (''pivot'', pop as_dict ''pivot'' PNone),
      (''wrap'', pop as_dict ''wrap'' PNone)]"

text \<open>
  Modelled from the spec: \<open>HighchartsMeta.from_dict\<close>, which is not among the sources. It
  constructs the class from the keyword arguments that \<open>_get_kwargs_from_dict\<close> returns.
\<close>

definition GaugeOptions_from_dict :: "env \<Rightarrow> (string \<times> pyval) list \<Rightarrow> error + obj" where
  "GaugeOptions_from_dict E as_dict =
     GaugeOptions_init E (GaugeOptions_get_kwargs_from_dict as_dict)"

text \<open>\<open>for key in parent_as_dict: untrimmed[key] = parent_as_dict[key]\<close>\<close>

fun update_all :: "(string \<times> pyval) list \<Rightarrow> (string \<times> pyval) list \<Rightarrow> (string \<times> pyval) list" where
  "update_all untrimmed [] = untrimmed"
| "update_all untrimmed ((k, v) # parent_as_dict) =
     update_all (setattr k v untrimmed) parent_as_dict"

definition GaugeOptions_untrimmed :: "obj \<Rightarrow> error + (string \<times> pyval) list" where
  "GaugeOptions_untrimmed s =
     and_then (getattr s ''_color_index'') (\<lambda>color_index.
     and_then (getattr s ''_crisp'') (\<lambda>crisp.
     and_then (getattr s ''_dial'') (\<lambda>dial.
     and_then (getattr s ''_linecap'') (\<lambda>linecap.
     and_then (getattr s ''_line_width'') (\<lambda>line_width.
     and_then (getattr s ''_overshoot'') (\<lambda>overshoot.
     and_then (getattr s ''_pivot'') (\<lambda>pivot.
     and_then (getattr s ''_point_interval'') (\<lambda>point_interval.
     and_then (getattr s ''_point_interval_unit'') (\<lambda>point_interval_unit.
     and_then (GaugeOptions_point_start s) (\<lambda>point_start.
     and_then (getattr s ''_relative_x_value'') (\<lambda>relative_x_value.
     and_then (getattr s ''_shadow'') (\<lambda>shadow.
     and_then (getattr s ''_wrap'') (\<lambda>wrap.
       Inr [(''colorIndex'', color_index), (''crisp'', crisp), (''dial'', dial),
            (''linecap'', linecap), (''lineWidth'', line_width),
            (''overshoot'', overshoot), (''pivot'', pivot),
            (''pointInterval'', point_interval),
            (''pointIntervalUnit'', point_interval_unit),
            (''pointStart'', point_start), (''relativeXValue'', relative_x_value),
            (''shadow'', shadow), (''wrap'', wrap)])))))))))))))"

definition GaugeOptions_to_dict :: "env \<Rightarrow> obj \<Rightarrow> error + (string \<times> pyval) list" where
  "GaugeOptions_to_dict E s =
     and_then (GaugeOptions_untrimmed s) (\<lambda>untrimmed.
     and_then (parent_to_dict E ''GenericTypeOptions'' s) (\<lambda>parent_as_dict.
       trim_dict E (update_all untrimmed parent_as_dict)))"

subsection \<open>\<open>SolidGauge\<close>\<close>

text \<open>
  \<open>inner_radius\<close> and \<open>radius\<close> try the value as a percentage string inside a \<open>try\<close>
  block whose handler is \<open>except ValueError\<close>; the handler passes the value to the numeric
  validator.
\<close>

definition percentage_string :: "pyval \<Rightarrow> error + pyval" where
  "percentage_string v =
     and_then (validators_string v False) (\<lambda>value.
       if \<not> py_in ''%'' value then Inl ValueError else Inr value)"

definition SolidGauge_inner_radius_setter :: "pyval \<Rightarrow> obj \<Rightarrow> outcome" where
  "SolidGauge_inner_radius_setter v s =
     (if v = PNone then store ''_inner_radius'' PNone s
      else case percentage_string v of
             Inr value \<Rightarrow> store ''_inner_radius'' value s
           | Inl e \<Rightarrow>
               if is_ValueError e
               then assign ''_inner_radius'' (validators_numeric v False True) s
               else raises e s)"

definition SolidGauge_overshoot_setter :: "pyval \<Rightarrow> obj \<Rightarrow> outcome" where
  "SolidGauge_overshoot_setter v = assign ''_overshoot'' (validators_numeric v True True)"

definition SolidGauge_radius_setter :: "pyval \<Rightarrow> obj \<Rightarrow> outcome" where
  "SolidGauge_radius_setter v s =
     (if v = PNone then store ''_radius'' PNone s
      else case percentage_string v of
             Inr value \<Rightarrow> store ''_radius'' value s
           | Inl e \<Rightarrow>
               if is_ValueError e
               then assign ''_radius'' (validators_numeric v False True) s
               else raises e s)"

definition SolidGauge_rounded_setter :: "pyval \<Rightarrow> obj \<Rightarrow> outcome" where
  "SolidGauge_rounded_setter v =
     (if v = PNone then store ''_rounded'' PNone else store ''_rounded'' (py_bool v))"

definition SolidGauge_attrs0 :: obj where
  "SolidGauge_attrs0 =
     [(''_inner_radius'', PNone), (''_overshoot'', PNone), (''_radius'', PNone),
      (''_rounded'', PNone)]"

definition SolidGauge_setters :: "(string \<times> pyval) list \<Rightarrow> (obj \<Rightarrow> outcome) list" where
  "SolidGauge_setters kwargs =
     [SolidGauge_inner_radius_setter (pop kwargs ''inner_radius'' PNone),
      SolidGauge_overshoot_setter (pop kwargs ''overshoot'' PNone),
      SolidGauge_radius_setter (pop kwargs ''radius'' PNone),
      SolidGauge_rounded_setter (pop kwargs ''rounded'' PNone)]"

definition SolidGauge_init :: "env \<Rightarrow> (string \<times> pyval) list \<Rightarrow> error + obj" where
  "SolidGauge_init E kwargs =
     subclass_init E ''SeriesOptions'' [''inner_radius'', ''overshoot'', ''radius'', ''rounded'']
       (SolidGauge_setters kwargs) SolidGauge_attrs0 kwargs"

definition SolidGauge_get_kwargs_from_dict ::
  "(string \<times> pyval) list \<Rightarrow> (string \<times> pyval) list" where
  "SolidGauge_get_kwargs_from_dict as_dict =
     [
(''accessibility'', pop as_dict ''accessibility'' PNone),
      (''allow_point_select'', pop as_dict ''allowPointSelect'' (PBool False)),
      (''animation'', pop as_dict ''animation'' PNone),
      (''class_name'', pop as_dict ''className'' PNone),
      (''clip'', pop as_dict ''clip'' (PBool True)),
      (''color'', pop as_dict ''color'' PNone),
      (''cursor'', pop as_dict ''cursor'' PNone),
      (''custom'', pop as_dict ''custom'' PNone),
      (''dash_style'', pop as_dict ''dashStyle'' PNone),
      (''data_labels'', pop as_dict ''dataLabels'' PNone),
      (''description'', pop as_dict ''description'' PNone),
      (''enable_mouse_tracking'', pop as_dict ''enableMouseTracking'' (PBool True)),
      (''events'', pop as_dict ''events'' PNone),
      (''include_in_data_export'', pop as_dict ''includeInDataExport'' PNone),
      (''keys'', pop as_dict ''keys'' PNone),
      (''label'', pop as_dict ''label'' PNone),
      (''linked_to'', pop as_dict ''linkedTo'' PNone),
      (''marker'', pop as_dict ''marker'' PNone),
      (''on_point'', pop as_dict ''onPoint'' PNone),
      (''opacity'', pop as_dict ''opacity'' PNone),
      (''point'', pop as_dict ''point'' PNone),
      (''point_description_formatter'', pop as_dict ''pointDescriptionFormatter'' PNone),
      (''selected'', pop as_dict ''selected'' (PBool False)),
      (''show_checkbox'', pop as_dict ''showCheckbox'' (PBool False)),
      (''show_in_legend'', pop as_dict ''showInLegend'' PNone),
      (''skip_keyboard_navigation'', pop as_dict ''skipKeyboardNavigation'' PNone),
      (''states'', pop as_dict ''states'' PNone),
      (''threshold'', pop as_dict ''threshold'' PNone),
      (''tooltip'', pop as_dict ''tooltip'' PNone),
      (''turbo_threshold'', pop as_dict ''turboThreshold'' PNone),
      (''visible'', pop as_dict ''visible'' (PBool True)),
      (''animation_limit'', pop as_dict ''animationLimit'' PNone),
      (''boost_blending'', pop as_dict ''boostBlending'' PNone),
      (''boost_threshold'', pop as_dict ''boostThreshold'' (PInt 5000)),
      (''color_axis'', pop as_dict ''colorAxis'' PNone),
      (''color_index'', pop as_dict ''colorIndex'' PNone),
      (''color_key'', pop as_dict ''colorKey'' PNone),
      (''connect_ends'', pop as_dict ''connectEnds'' PNone),
      (''connect_nulls'', pop as_dict ''connectNulls'' (PBool False)),
      (''crisp'', pop as_dict ''crisp'' (PBool True)),
      (''crop_threshold'', pop as_dict ''cropThreshold'' (PInt 300)),
      (''data_sorting'', pop as_dict ''dataSorting'' PNone),
      (''drag_drop'', pop as_dict ''dragDrop'' PNone),
      (''find_nearest_point_by'', pop as_dict ''findNearestPointBy'' PNone),
      (''get_extremes_for_all'', pop as_dict ''getExtremesForAll'' (PBool False)),
      (''linecap'', pop as_dict ''linecap'' (PStr ''round'')),
      (''line_width'', pop as_dict ''lineWidth'' (PInt 2)),
      (''negative_color'', pop as_dict ''negativeColor'' PNone),
      (''point_interval'', pop as_dict ''pointInterval'' (PInt 1)),
      (''point_interval_unit'', pop as_dict ''pointIntervalUnit'' PNone),
      (''point_placement'', pop as_dict ''pointPlacement'' PNone),
      (''point_start'', pop as_dict ''pointStart'' (PInt 0)),
      (''relative_x_value'', pop as_dict ''relativeXValue'' (PBool False)),
      (''shadow'', pop as_dict ''shadow'' (PBool False)),
      (''soft_threshold'', pop as_dict ''softThreshold'' (PBool True)),
      (''stacking'', pop as_dict ''stacking'' PNone),
      (''step'', pop as_dict ''step'' PNone),
      (''zone_axis'', pop as_dict ''zoneAxis'' (PStr ''y'')),
      (''zones'', pop as_dict ''zones'' PNone),
      (''inner_radius'', pop as_dict ''innerRadius'' PNone),
      (''overshoot'', pop as_dict ''overshoot'' PNone),
      (''radius'', pop as_dict ''radius'' PNone),
      (''rounded'', pop as_dict ''rounded'' PNone)]"

definition SolidGauge_from_dict :: "env \<Rightarrow> (string \<times> pyval) list \<Rightarrow> error + obj" where
  "SolidGauge_from_dict E as_dict =
     SolidGauge_init E (SolidGauge_get_kwargs_from_dict as_dict)"

text \<open>
  \<open>super(x)\<close> with one argument needs a class: called on anything else it raises
  \<open>TypeError\<close>. No value of the model is a class.
\<close>

fun py_super1 :: "pyval \<Rightarrow> error + pyval" where
  "py_super1 (PObj c a) = Inl TypeError"
| "py_super1 v = Inl TypeError"

definition SolidGauge_untrimmed :: "obj \<Rightarrow> error + (string \<times> pyval) list" where
  "SolidGauge_untrimmed s =
     and_then (getattr s ''_inner_radius'') (\<lambda>inner_radius.
     and_then (getattr s ''_overshoot'') (\<lambda>overshoot.
     and_then (getattr s ''_radius'') (\<lambda>radius.
     and_then (getattr s ''_rounded'') (\<lambda>rounded.
       Inr [(''inner_radius'', inner_radius), (''overshoot'', overshoot),
            (''radius'', radius), (''rounded'', rounded)]))))"

text \<open>\<open>to_dict\<close> builds its dictionary, then evaluates \<open>super(self).to_dict()\<close>.\<close>

definition SolidGauge_to_dict :: "env \<Rightarrow> obj \<Rightarrow> error + (string \<times> pyval) list" where
  "SolidGauge_to_dict E s =
     and_then (SolidGauge_untrimmed s) (\<lambda>untrimmed.
     and_then (py_super1 (PObj ''SolidGauge'' s)) (\<lambda>proxy.
     and_then (parent_to_dict E ''SeriesOptions'' s) (\<lambda>parent_as_dict.
       trim_dict E (update_all untrimmed parent_as_dict))))"

section \<open>Vector data points (\<open>series/data/vector.py\<close>)\<close>

definition VectorData_direction_setter :: "pyval \<Rightarrow> obj \<Rightarrow> outcome" where
  "VectorData_direction_setter v = assign ''_direction'' (validators_numeric v True False)"

definition VectorData_length_setter :: "pyval \<Rightarrow> obj \<Rightarrow> outcome" where
  "VectorData_length_setter v = assign ''_length'' (validators_numeric v True False)"

definition VectorData_direction :: "obj \<Rightarrow> error + pyval" where
  "VectorData_direction s = getattr s ''_direction''"

definition VectorData_length :: "obj \<Rightarrow> error + pyval" where
  "VectorData_length s = getattr s ''_length''"

definition VectorData_setters :: "(string \<times> pyval) list \<Rightarrow> (obj \<Rightarrow> outcome) list" where
  "VectorData_setters kwargs =
     [VectorData_direction_setter (pop kwargs ''direction'' PNone),
      VectorData_length_setter (pop kwargs ''length'' PNone)]"

definition VectorData_attrs0 :: obj where
  "VectorData_attrs0 = [(''_direction'', PNone), (''_length'', PNone)]"

definition VectorData_init :: "env \<Rightarrow> (string \<times> pyval) list \<Rightarrow> error + obj" where
  "VectorData_init E kwargs =
     subclass_init E ''CartesianData'' [''direction'', ''length'']
       (VectorData_setters kwargs) VectorData_attrs0 kwargs"

definition VectorData_get_kwargs_from_dict ::
  "(string \<times> pyval) list \<Rightarrow> (string \<times> pyval) list" where
  "VectorData_get_kwargs_from_dict as_dict =
     [
(''accessibility'', pop as_dict ''accessibility'' PNone),
      (''class_name'', pop as_dict ''className'' PNone),
      (''color'', pop as_dict ''color'' PNone),
      (''color_index'', pop as_dict ''colorIndex'' PNone),
      (''custom'', pop as_dict ''custom'' PNone),
      (''description'', pop as_dict ''description'' PNone),
      (''events'', pop as_dict ''events'' PNone),
      (''id'', pop as_dict ''id'' PNone),
      (''label_rank'', pop as_dict ''labelrank'' PNone),
      (''name'', pop as_dict ''name'' PNone),
      (''selected'', pop as_dict ''selected'' PNone),
      (''data_labels'', pop as_dict ''dataLabels'' PNone),
      (''drag_drop'', pop as_dict ''dragDrop'' PNone),
      (''drilldown'', pop as_dict ''drilldown'' PNone),
      (''marker'', pop as_dict ''marker'' PNone),
      (''x'', pop as_dict ''x'' PNone),
      (''y'', pop as_dict ''y'' PNone),
      (''direction'', pop as_dict ''direction'' PNone),
      (''length'', pop as_dict ''length'' PNone)]"

text \<open>\<open>cls.from_dict(item)\<close>; an item that is not a dictionary has no \<open>pop\<close>.\<close>

definition VectorData_from_dict :: "env \<Rightarrow> pyval \<Rightarrow> error + obj" where
  "VectorData_from_dict E item =
     (case item of
        PDict as_dict \<Rightarrow> VectorData_init E (VectorData_get_kwargs_from_dict as_dict)
      | _ \<Rightarrow> Inl AttributeError)"



text \<open>
  \<open>checkers.is_dict(item)\<close>: true of every dictionary, the empty one included, and of any
  other value on which \<open>validators.dict(item)\<close> returns.
\<close>

definition checkers_is_dict :: "env \<Rightarrow> pyval \<Rightarrow> bool" where
  "checkers_is_dict E v =
     (is_dict v \<or> (case validators_dict E v False of Inl e \<Rightarrow> False | Inr d \<Rightarrow> True))"

definition py_len :: "pyval \<Rightarrow> error + nat" where
  "py_len v =
     (case v of
        PStr s \<Rightarrow> Inr (length s)
      | PList xs \<Rightarrow> Inr (length xs)
      | PDict d \<Rightarrow> Inr (length d)
      | _ \<Rightarrow> Inl TypeError)"

text \<open>\<open>item[i]\<close> for a literal index \<open>i\<close>; the keys of a dictionary are strings.\<close>

definition py_index :: "pyval \<Rightarrow> nat \<Rightarrow> error + pyval" where
  "py_index v i =
     (case v of
        PList xs \<Rightarrow> if i < length xs then Inr (xs ! i) else Inl IndexError
      | PStr s \<Rightarrow> if i < length s then Inr (PStr [s ! i]) else Inl IndexError
      | PDict d \<Rightarrow> Inl KeyError
      | _ \<Rightarrow> Inl TypeError)"

text \<open>The body of the loop of \<open>from_setter\<close>: one item to one instance.\<close>

definition VectorData_coerce :: "env \<Rightarrow> pyval \<Rightarrow> error + pyval" where
  "VectorData_coerce E item =
     (if is_instance item [''VectorData''] then Inr item
      else if checkers_is_dict E item
        then instance_of ''VectorData'' (VectorData_from_dict E item)
      else if item = PNone \<or> is_instance item [''EnforcedNullType'']
        then instance_of ''VectorData'' (VectorData_init E [])
      else and_then (py_len item) (\<lambda>n.
        if n = 4 then
          and_then (py_index item 0) (\<lambda>i0.
          and_then (py_index item 1) (\<lambda>i1.
          and_then (py_index item 2) (\<lambda>i2.
          and_then (py_index item 3) (\<lambda>i3.
            instance_of ''VectorData''
              (VectorData_init E
                 [(''x'', i0), (''y'', i1), (''length'', i2), (''direction'', i3)])))))
        else if n = 3 then
          and_then (py_index item 0) (\<lambda>i0.
          and_then (py_index item 1) (\<lambda>i1.
          and_then (py_index item 2) (\<lambda>i2.
            instance_of ''VectorData''
              (VectorData_init E
                 [(''x'', PNone), (''y'', i0), (''length'', i1), (''direction'', i2)]))))
        else Inl HighchartsValueError))"



section \<open>A reference environment\<close>

text \<open>
  Runs on concrete inputs need concrete collaborators. In \<open>env0\<close> no string decodes as
  JSON, the absent classes convert nothing, a parent constructor keeps each keyword it is
  given in the attribute of that name, a parent's \<open>to_dict\<close> contributes no entries, and a
  nested node lowers to the dictionary of its attributes. The general statements below
  hold for every environment and do not depend on this choice.
\<close>

definition env0 :: env where
  "env0 = \<lparr>
     dict_of_json = (\<lambda>s. Inl CannotCoerceError),
     extern = (\<lambda>name v. Inl TypeConversionError),
     parent_init = (\<lambda>cls kwargs. Inr (map (\<lambda>p. (CHR ''_'' # fst p, snd p)) kwargs)),
     parent_to_dict = (\<lambda>cls s. Inr []),
     lower_node = (\<lambda>cls a. Inr (PDict a)) \<rparr>"

text \<open>The instances of \<open>SolidGauge\<close>, as for the classes above.\<close>

inductive SolidGauge_instance :: "env \<Rightarrow> obj \<Rightarrow> bool" for E :: env where
  created: "SolidGauge_init E kwargs = Inr s \<Longrightarrow> SolidGauge_instance E s"
| assigned: "SolidGauge_instance E s \<Longrightarrow> f \<in> set (SolidGauge_setters kwargs) \<Longrightarrow>
     SolidGauge_instance E (snd (f s))"

section \<open>Properties\<close>

subsection \<open>Attribute dictionaries and constructor bodies\<close>

lemma map_of_setattr: "map_of (setattr k v s) k' = (if k' = k then Some v else map_of s k')"
  by (induction s) auto

lemma keys_setattr: "k \<in> set (map fst s) \<Longrightarrow> map fst (setattr k v s) = map fst s"
proof (induction s)
  case Nil
  then show ?case by simp
next
  case (Cons p s)
  then show ?case by (cases p) force
qed

lemma snd_assign: "snd (assign k r s) = (case r of Inl e \<Rightarrow> s | Inr v \<Rightarrow> setattr k v s)"
  by (simp add: assign_def raises_def store_def split: sum.splits)

lemma snd_store: "snd (store k v s) = setattr k v s"
  by (simp add: store_def)

lemma snd_raises: "snd (raises e s) = s"
  by (simp add: raises_def)

lemma map_of_assign_other: "k' \<noteq> k \<Longrightarrow> map_of (snd (assign k r s)) k' = map_of s k'"
  by (simp add: snd_assign map_of_setattr split: sum.splits)

lemma map_of_store_other: "k' \<noteq> k \<Longrightarrow> map_of (snd (store k v s)) k' = map_of s k'"
  by (simp add: store_def map_of_setattr)

lemma map_of_absent: "k \<notin> set (map fst s) \<Longrightarrow> map_of s k = None"
  by (simp add: map_of_eq_None_iff)

lemma map_of_present: "k \<in> set (map fst s) \<Longrightarrow> \<exists>v. map_of s k = Some v"
  by (metis map_of_eq_None_iff not_Some_eq set_map)

text \<open>What every statement of a constructor body preserves holds when the body ends,
  whether it ended by an exception or not.\<close>

lemma run_all_invariant:
  assumes "\<And>f s. f \<in> set fs \<Longrightarrow> P s \<Longrightarrow> P (snd (f s))" and "P s"
  shows "P (snd (run_all fs s))"
  using assms
proof (induction fs arbitrary: s)
  case Nil
  then show ?case by simp
next
  case (Cons f fs)
  have here: "P (snd (f s))" using Cons.prems by simp
  have rest: "\<And>s'. P s' \<Longrightarrow> P (snd (run_all fs s'))"
    using Cons.IH Cons.prems(1) by simp
  show ?case
  proof (cases "f s")
    case (Pair r s')
    then show ?thesis using here rest by (cases r) auto
  qed
qed

subsection \<open>Enumerations\<close>

text \<open>
  Claim C3. A closed-enumeration field accepts every casing of an allowed token and stores
  the normalised token. The setters of \<open>relative_to\<close> lowercase the value and then look
  it up among \<open>plot\<close>, \<open>chart\<close>, \<open>plotBox\<close> and \<open>spacingBox\<close>, so the two camel-case
  tokens their documentation lists are rejected in every casing.
\<close>

theorem relative_to_rejects_documented_tokens:
  "BreadcrumbOptions_relative_to_setter (PStr ''plotBox'') s = raises HighchartsValueError s \<and>
   BreadcrumbOptions_relative_to_setter (PStr ''PLOTBOX'') s = raises HighchartsValueError s \<and>
   BreadcrumbOptions_relative_to_setter (PStr ''spacingBox'') s = raises HighchartsValueError s \<and>
   ResetZoomButtonOptions_relative_to_setter (PStr ''plotBox'') s = raises HighchartsValueError s \<and>
   ResetZoomButtonOptions_relative_to_setter (PStr ''spacingBox'') s =
     raises HighchartsValueError s"
  by (simp add: BreadcrumbOptions_relative_to_setter_def
      ResetZoomButtonOptions_relative_to_setter_def validators_string_def lower_def
      lower_char_def)

text \<open>The lowercased value never has an upper-case \<open>B\<close>, so no string at all makes the
  setter store one of the two tokens.\<close>

lemma lower_char_not_B: "lower_char c \<noteq> CHR ''B''"
  by (auto simp: lower_char_def split: option.splits if_splits)

lemma lower_not_camel_case: "lower str \<noteq> ''plotBox'' \<and> lower str \<noteq> ''spacingBox''"
proof -
  have "CHR ''B'' \<notin> set (lower str)"
  proof
    assume "CHR ''B'' \<in> set (lower str)"
    then obtain c where "lower_char c = CHR ''B''"
      by (auto simp: lower_def)
    then show False using lower_char_not_B by blast
  qed
  then show ?thesis by auto
qed

lemma BreadcrumbOptions_relative_to_accepts:
  "str \<noteq> [] \<Longrightarrow>
   BreadcrumbOptions_relative_to_setter (PStr str) s =
     (if lower str = ''plot'' \<or> lower str = ''chart''
      then store ''_relative_to'' (PStr (lower str)) s
      else raises HighchartsValueError s)"
  using lower_not_camel_case [of str]
  by (simp add: BreadcrumbOptions_relative_to_setter_def validators_string_def Let_def)

text \<open>\<open>SeriesNavigation.mode\<close> has lower-case tokens only and does follow the law.\<close>

lemma SeriesNavigation_mode_enumeration:
  "str \<noteq> [] \<Longrightarrow>
   SeriesNavigation_mode_setter (PStr str) s =
     (if lower str = ''normal'' \<or> lower str = ''serialize''
      then store ''_mode'' (PStr (lower str)) s
      else raises HighchartsValueError s)"
  by (simp add: SeriesNavigation_mode_setter_def validators_string_def Let_def)

subsection \<open>The \<open>z_index\<close> of breadcrumbs\<close>

lemma BreadcrumbOptions_relative_to_other:
  "k' \<noteq> ''_relative_to'' \<Longrightarrow>
   map_of (snd (BreadcrumbOptions_relative_to_setter v s)) k' = map_of s k'"
  by (auto simp: BreadcrumbOptions_relative_to_setter_def raises_def store_def map_of_setattr
      Let_def split: sum.splits pyval.splits)

lemma BreadcrumbOptions_z_index_setter_inert: "snd (BreadcrumbOptions_z_index_setter v s) = s"
  by (simp add: BreadcrumbOptions_z_index_setter_def raises_def split: sum.splits)

lemma BreadcrumbOptions_setters_keep_z_index:
  "f \<in> set (BreadcrumbOptions_setters E kw) \<Longrightarrow>
   map_of (snd (f s)) ''_z_index'' = map_of s ''_z_index''"
  unfolding BreadcrumbOptions_setters_def
  by (auto simp: BreadcrumbOptions_button_spacing_setter_def
      BreadcrumbOptions_button_theme_setter_def BreadcrumbOptions_events_setter_def
      BreadcrumbOptions_floating_setter_def BreadcrumbOptions_format_setter_def
      BreadcrumbOptions_formatter_setter_def BreadcrumbOptions_position_setter_def
      BreadcrumbOptions_rtl_setter_def BreadcrumbOptions_separator_setter_def
      BreadcrumbOptions_show_full_path_setter_def BreadcrumbOptions_style_setter_def
      BreadcrumbOptions_use_html_setter_def map_of_assign_other map_of_store_other
      BreadcrumbOptions_relative_to_other BreadcrumbOptions_z_index_setter_inert)

lemma BreadcrumbOptions_instance_z_index:
  "BreadcrumbOptions_instance E s \<Longrightarrow> map_of s ''_z_index'' = Some PNone"
proof (induction rule: BreadcrumbOptions_instance.induct)
  case (created kwargs s)
  have "map_of (snd (run_all (BreadcrumbOptions_setters E kwargs) BreadcrumbOptions_attrs0))
          ''_z_index'' = Some PNone"
    by (rule run_all_invariant)
      (simp_all add: BreadcrumbOptions_setters_keep_z_index BreadcrumbOptions_attrs0_def)
  with created show ?case
    by (auto simp: BreadcrumbOptions_init_def construct_def split: prod.splits option.splits)
next
  case (assigned s f kwargs)
  then show ?case by (simp add: BreadcrumbOptions_setters_keep_z_index)
qed

lemma BreadcrumbOptions_init_no_kwargs:
  "BreadcrumbOptions_init E [] = Inr (setattr ''_theme'' PNone BreadcrumbOptions_attrs0)"
  by (simp add: BreadcrumbOptions_init_def BreadcrumbOptions_setters_def construct_def pop_def
      BreadcrumbOptions_button_spacing_setter_def BreadcrumbOptions_button_theme_setter_def
      BreadcrumbOptions_events_setter_def BreadcrumbOptions_floating_setter_def
      BreadcrumbOptions_format_setter_def BreadcrumbOptions_formatter_setter_def
      BreadcrumbOptions_position_setter_def BreadcrumbOptions_relative_to_setter_def
      BreadcrumbOptions_rtl_setter_def BreadcrumbOptions_separator_setter_def
      BreadcrumbOptions_show_full_path_setter_def BreadcrumbOptions_style_setter_def
      BreadcrumbOptions_use_html_setter_def BreadcrumbOptions_z_index_setter_def
      BreadcrumbOptions_attrs0_def assign_def store_def raises_def validators_numeric_def
      validators_dict_def validators_string_def validators_integer_def class_sensitive_def)

text \<open>
  Claim C8. On every instance of \<open>BreadcrumbOptions\<close>, assigning an integer \<open>v\<close> to
  \<open>z_index\<close> returns without raising and leaves the instance exactly as it was, and
  \<open>z_index\<close> reads \<open>None\<close> afterwards; whatever the assigned value \<open>w\<close>, the setter changes
  no attribute.
\<close>

theorem BreadcrumbOptions_z_index_never_stored:
  "BreadcrumbOptions_instance E s \<Longrightarrow>
   BreadcrumbOptions_z_index_setter (PInt v) s = (None, s) \<and>
   BreadcrumbOptions_z_index (snd (BreadcrumbOptions_z_index_setter (PInt v) s)) = Inr PNone \<and>
   snd (BreadcrumbOptions_z_index_setter w s) = s"
  by (simp add: BreadcrumbOptions_z_index_setter_inert BreadcrumbOptions_instance_z_index
      BreadcrumbOptions_z_index_def getattr_def)
    (simp add: BreadcrumbOptions_z_index_setter_def validators_integer_def
      validators_numeric_def)

theorem BreadcrumbOptions_z_index_never_stored_witness:
  "\<forall>E. BreadcrumbOptions_instance E (setattr ''_theme'' PNone BreadcrumbOptions_attrs0) \<and>
     BreadcrumbOptions_z_index_setter (PInt 7) (setattr ''_theme'' PNone BreadcrumbOptions_attrs0) =
       (None, setattr ''_theme'' PNone BreadcrumbOptions_attrs0) \<and>
     BreadcrumbOptions_z_index
       (snd (BreadcrumbOptions_z_index_setter (PInt 7)
          (setattr ''_theme'' PNone BreadcrumbOptions_attrs0))) = Inr PNone"
  using BreadcrumbOptions_z_index_never_stored [of _ "setattr ''_theme'' PNone BreadcrumbOptions_attrs0" 7]
    BreadcrumbOptions_instance.created [OF BreadcrumbOptions_init_no_kwargs]
  by blast

subsection \<open>Series navigation cannot be read or serialised\<close>

lemma SeriesNavigation_setters_keys:
  assumes "f \<in> set (SeriesNavigation_setters kw)"
    and "map fst s = [''_mode'', ''_point_navigation_enabled_threshold'',
           ''_remember_point_focus'', ''_skip_null_points'']"
  shows "map fst (snd (f s)) = map fst s"
  using assms unfolding SeriesNavigation_setters_def
  by (auto simp: SeriesNavigation_mode_setter_def
      SeriesNavigation_point_navigation_enabled_threshold_setter_def
      SeriesNavigation_remember_point_focus_setter_def
      SeriesNavigation_skip_null_points_setter_def
      snd_assign snd_store snd_raises keys_setattr Let_def split: sum.splits pyval.splits)

lemma SeriesNavigation_instance_keys:
  "SeriesNavigation_instance s \<Longrightarrow>
   map fst s = [''_mode'', ''_point_navigation_enabled_threshold'',
     ''_remember_point_focus'', ''_skip_null_points'']"
proof (induction rule: SeriesNavigation_instance.induct)
  case (created kwargs s)
  have "map fst (snd (run_all (SeriesNavigation_setters kwargs) SeriesNavigation_attrs0)) =
     [''_mode'', ''_point_navigation_enabled_threshold'', ''_remember_point_focus'',
      ''_skip_null_points'']"
    by (rule run_all_invariant)
      (simp_all add: SeriesNavigation_setters_keys SeriesNavigation_attrs0_def)
  with created show ?case
    by (auto simp: SeriesNavigation_init_def construct_def split: prod.splits option.splits)
next
  case (assigned s f kwargs)
  then show ?case by (simp add: SeriesNavigation_setters_keys)
qed

lemma SeriesNavigation_init_no_kwargs:
  "SeriesNavigation_init [] =
     Inr [(''_mode'', PStr ''normal''),
          (''_point_navigation_enabled_threshold'', PBool False),
          (''_remember_point_focus'', PBool False),
          (''_skip_null_points'', PBool True)]"
  by (simp add: SeriesNavigation_init_def SeriesNavigation_setters_def construct_def pop_def
      SeriesNavigation_attrs0_def SeriesNavigation_mode_setter_def
      SeriesNavigation_point_navigation_enabled_threshold_setter_def
      SeriesNavigation_remember_point_focus_setter_def
      SeriesNavigation_skip_null_points_setter_def
      validators_string_def lower_def lower_char_def store_def py_bool_def)

text \<open>
  Claim C9. On every instance of \<open>SeriesNavigation\<close>, built by the constructor or
  \<open>from_dict\<close> and changed by any property assignments, reading \<open>remember_point_focus\<close>
  raises \<open>AttributeError\<close> and so does \<open>to_dict\<close>: no instance can be serialised.
\<close>

theorem SeriesNavigation_never_serialised:
  "SeriesNavigation_instance s \<Longrightarrow>
   SeriesNavigation_remember_point_focus s = Inl AttributeError \<and>
   SeriesNavigation_to_dict E s = Inl AttributeError"
proof -
  assume "SeriesNavigation_instance s"
  then have k: "map fst s = [''_mode'', ''_point_navigation_enabled_threshold'',
      ''_remember_point_focus'', ''_skip_null_points'']"
    by (rule SeriesNavigation_instance_keys)
  have a: "map_of s ''point_focus'' = None" "map_of s ''remmeber_point_focus'' = None"
    by (rule map_of_absent, simp add: k)+
  obtain m t where b: "map_of s ''_mode'' = Some m"
      "map_of s ''_point_navigation_enabled_threshold'' = Some t"
    using map_of_present [of "''_mode''" s]
      map_of_present [of "''_point_navigation_enabled_threshold''" s] k
    by auto
  show ?thesis
    by (simp add: SeriesNavigation_remember_point_focus_def SeriesNavigation_to_dict_def
        SeriesNavigation_mode_def SeriesNavigation_point_navigation_enabled_threshold_def
        getattr_def and_then_def a b)
qed

theorem SeriesNavigation_never_serialised_witness:
  "SeriesNavigation_instance
     [(''_mode'', PStr ''normal''),
      (''_point_navigation_enabled_threshold'', PBool False),
      (''_remember_point_focus'', PBool False),
      (''_skip_null_points'', PBool True)] \<and>
   SeriesNavigation_remember_point_focus
     [(''_mode'', PStr ''normal''),
      (''_point_navigation_enabled_threshold'', PBool False),
      (''_remember_point_focus'', PBool False),
      (''_skip_null_points'', PBool True)] = Inl AttributeError \<and>
   (\<forall>E. SeriesNavigation_to_dict E
     [(''_mode'', PStr ''normal''),
      (''_point_navigation_enabled_threshold'', PBool False),
      (''_remember_point_focus'', PBool False),
      (''_skip_null_points'', PBool True)] = Inl AttributeError)"
  using SeriesNavigation_never_serialised
    SeriesNavigation_instance.created [OF SeriesNavigation_init_no_kwargs]
  by blast

subsection \<open>\<open>SolidGauge.to_dict\<close>\<close>

lemma keyset_setattr: "fst ` set (setattr k v s) = insert k (fst ` set s)"
proof -
  have "dom (map_of (setattr k v s)) = insert k (dom (map_of s))"
    by (auto simp: map_of_setattr dom_def split: if_splits)
  then show ?thesis by (simp add: dom_map_of_conv_image_fst)
qed

lemma keys_grow_assign: "fst ` set s \<subseteq> fst ` set (snd (assign k r s))"
  by (cases r) (auto simp: assign_def raises_def store_def keyset_setattr)

lemma keys_grow_store: "fst ` set s \<subseteq> fst ` set (snd (store k v s))"
  by (auto simp: store_def keyset_setattr)

lemma keys_grow_raises: "fst ` set s \<subseteq> fst ` set (snd (raises e s))"
  by (simp add: raises_def)

lemma SolidGauge_setters_keys:
  assumes "f \<in> set (SolidGauge_setters kw)"
  shows "fst ` set s \<subseteq> fst ` set (snd (f s))"
proof -
  have "f = SolidGauge_inner_radius_setter (pop kw ''inner_radius'' PNone) \<or>
    f = SolidGauge_overshoot_setter (pop kw ''overshoot'' PNone) \<or>
    f = SolidGauge_radius_setter (pop kw ''radius'' PNone) \<or>
    f = SolidGauge_rounded_setter (pop kw ''rounded'' PNone)"
    using assms by (simp add: SolidGauge_setters_def)
  then show ?thesis
    by (elim disjE)
      (simp_all add: SolidGauge_inner_radius_setter_def SolidGauge_overshoot_setter_def
        SolidGauge_radius_setter_def SolidGauge_rounded_setter_def
        keys_grow_assign keys_grow_store keys_grow_raises split: sum.splits)
qed

lemma subclass_init_Inr:
  assumes "subclass_init E parent own_keys setters attrs0 kwargs = Inr s"
  obtains x p where "run_all setters attrs0 = (None, x)"
    and "parent_init E parent (without_keys own_keys kwargs) = Inr p" and "s = x @ p"
proof (cases "run_all setters attrs0")
  case (Pair r x)
  show ?thesis
  proof (cases r)
    case None
    with Pair assms that show ?thesis
      by (cases "parent_init E parent (without_keys own_keys kwargs)")
        (simp_all add: subclass_init_def and_then_def construct_def)
  next
    case (Some e)
    with Pair assms show ?thesis
      by (simp add: subclass_init_def and_then_def construct_def)
  qed
qed

lemma SolidGauge_instance_keys:
  "SolidGauge_instance E s \<Longrightarrow> fst ` set SolidGauge_attrs0 \<subseteq> fst ` set s"
proof (induction rule: SolidGauge_instance.induct)
  case (created kwargs s)
  have own: "fst ` set SolidGauge_attrs0
          \<subseteq> fst ` set (snd (run_all (SolidGauge_setters kwargs) SolidGauge_attrs0))"
  proof (rule run_all_invariant)
    fix f and s :: obj
    assume f: "f \<in> set (SolidGauge_setters kwargs)"
      and s: "fst ` set SolidGauge_attrs0 \<subseteq> fst ` set s"
    have "fst ` set s \<subseteq> fst ` set (snd (f s))"
      using f by (rule SolidGauge_setters_keys)
    with s show "fst ` set SolidGauge_attrs0 \<subseteq> fst ` set (snd (f s))"
      by (rule subset_trans)
  qed (rule subset_refl)
  from created obtain x p
    where "run_all (SolidGauge_setters kwargs) SolidGauge_attrs0 = (None, x)" and "s = x @ p"
    unfolding SolidGauge_init_def by (rule subclass_init_Inr)
  with own show ?case by auto
next
  case (assigned s f kwargs)
  have "fst ` set s \<subseteq> fst ` set (snd (f s))"
    using assigned(2) by (rule SolidGauge_setters_keys)
  with assigned(3) show ?case by (rule subset_trans)
qed

lemma getattr_present:
  assumes "k \<in> fst ` set s"
  shows "\<exists>v. getattr s k = Inr v"
proof -
  from assms have "map_of s k \<noteq> None"
    by (simp add: map_of_eq_None_iff)
  then show ?thesis by (auto simp: getattr_def)
qed

text \<open>
  Claim C10. On every instance of \<open>SolidGauge\<close>, \<open>to_dict\<close> raises \<open>TypeError\<close> at
  \<open>super(self)\<close> and returns no dictionary, and the dictionary it had built by then has
  the snake-case keys \<open>inner_radius\<close>, \<open>overshoot\<close>, \<open>radius\<close> and \<open>rounded\<close>.
\<close>

theorem SolidGauge_to_dict_raises:
  "SolidGauge_instance E s \<Longrightarrow>
   SolidGauge_to_dict E s = Inl TypeError \<and>
   (\<exists>d. SolidGauge_untrimmed s = Inr d \<and>
        map fst d = [''inner_radius'', ''overshoot'', ''radius'', ''rounded''])"
proof -
  assume "SolidGauge_instance E s"
  then have k: "fst ` set SolidGauge_attrs0 \<subseteq> fst ` set s"
    by (rule SolidGauge_instance_keys)
  have "''_inner_radius'' \<in> fst ` set SolidGauge_attrs0" by (simp add: SolidGauge_attrs0_def)
  from getattr_present [OF subsetD [OF k this]]
  obtain a where a: "getattr s ''_inner_radius'' = Inr a" ..
  have "''_overshoot'' \<in> fst ` set SolidGauge_attrs0" by (simp add: SolidGauge_attrs0_def)
  from getattr_present [OF subsetD [OF k this]]
  obtain b where b: "getattr s ''_overshoot'' = Inr b" ..
  have "''_radius'' \<in> fst ` set SolidGauge_attrs0" by (simp add: SolidGauge_attrs0_def)
  from getattr_present [OF subsetD [OF k this]]
  obtain c where c: "getattr s ''_radius'' = Inr c" ..
  have "''_rounded'' \<in> fst ` set SolidGauge_attrs0" by (simp add: SolidGauge_attrs0_def)
  from getattr_present [OF subsetD [OF k this]]
  obtain d where d: "getattr s ''_rounded'' = Inr d" ..
  have u: "SolidGauge_untrimmed s = Inr [(''inner_radius'', a), (''overshoot'', b),
            (''radius'', c), (''rounded'', d)]"
    by (simp add: SolidGauge_untrimmed_def and_then_def a b c d)
  show ?thesis
    by (simp add: SolidGauge_to_dict_def u and_then_def)
qed

lemma SolidGauge_init_env0:
  "SolidGauge_init env0 [(''inner_radius'', PStr ''60%''), (''rounded'', PBool True)] =
     Inr [(''_inner_radius'', PStr ''60%''), (''_overshoot'', PNone), (''_radius'', PNone),
          (''_rounded'', PBool True)]"
  by (simp add: SolidGauge_init_def subclass_init_def SolidGauge_setters_def env0_def pop_def
      SolidGauge_inner_radius_setter_def SolidGauge_overshoot_setter_def
      SolidGauge_radius_setter_def SolidGauge_rounded_setter_def SolidGauge_attrs0_def
      and_then_def construct_def percentage_string_def validators_string_def
      validators_numeric_def store_def assign_def without_keys_def py_bool_def)

theorem SolidGauge_to_dict_raises_witness:
  "SolidGauge_instance env0
     [(''_inner_radius'', PStr ''60%''), (''_overshoot'', PNone), (''_radius'', PNone),
      (''_rounded'', PBool True)] \<and>
   SolidGauge_to_dict env0
     [(''_inner_radius'', PStr ''60%''), (''_overshoot'', PNone), (''_radius'', PNone),
      (''_rounded'', PBool True)] = Inl TypeError"
  using SolidGauge_to_dict_raises [OF SolidGauge_instance.created [OF SolidGauge_init_env0]]
    SolidGauge_instance.created [OF SolidGauge_init_env0]
  by simp


text \<open>Whatever the attributes of the instance, \<open>to_dict\<close> returns nothing.\<close>

lemma SolidGauge_to_dict_never_returns: "SolidGauge_to_dict E s \<noteq> Inr d"
  by (simp add: SolidGauge_to_dict_def and_then_def split: sum.splits)

subsection \<open>Colour fields\<close>

text \<open>
  Claim C2. A non-empty value that is no gradient or pattern instance and has neither
  marker key is stored as a plain colour string. The four colour setters end in
  \<open>raise HighchartsValueError\<close> with no branch for a plain string: every non-empty
  string without \<open>linearGradient\<close> and \<open>patternOptions\<close> in it is rejected.
\<close>

theorem color_setters_reject_plain_strings:
  "str \<noteq> [] \<Longrightarrow> \<not> str_contains ''linearGradient'' str \<Longrightarrow>
   \<not> str_contains ''patternOptions'' str \<Longrightarrow>
   DialOptions_background_color_setter E (PStr str) s = raises HighchartsValueError s \<and>
   DialOptions_border_color_setter E (PStr str) s = raises HighchartsValueError s \<and>
   PivotOptions_background_color_setter E (PStr str) s = raises HighchartsValueError s \<and>
   PivotOptions_border_color_setter E (PStr str) s = raises HighchartsValueError s"
  by (simp add: DialOptions_background_color_setter_def DialOptions_border_color_setter_def
      PivotOptions_background_color_setter_def PivotOptions_border_color_setter_def
      color_setter_def is_instance_def is_dict_def is_str_def)

theorem color_setters_reject_plain_strings_witness:
  "\<forall>E s. DialOptions_background_color_setter E (PStr ''#ccc'') s =
            raises HighchartsValueError s \<and>
          PivotOptions_background_color_setter E (PStr ''#ccc'') s =
            raises HighchartsValueError s"
  using color_setters_reject_plain_strings [of "''#ccc''"] by simp

text \<open>A list is rejected as well, and an instance of \<open>Gradient\<close> is stored as it is.\<close>

lemma color_setter_list: "color_setter k E (PList (x # xs)) s = raises HighchartsValueError s"
  by (simp add: color_setter_def is_instance_def is_dict_def is_str_def)

lemma color_setter_instance:
  "color_setter k E (PObj ''Gradient'' a) s = store k (PObj ''Gradient'' a) s"
  by (simp add: color_setter_def is_instance_def)

subsection \<open>Percentages\<close>

lemma contains_nonempty: "str_contains n str \<Longrightarrow> n \<noteq> [] \<Longrightarrow> str \<noteq> []"
  by (cases str) auto

lemma py_float_empty: "py_float [] = None"
  by (simp add: py_float_def strip_def split_sign_def lower_def decimal_val_def
      mantissa_val_def)

lemma py_float_80: "py_float ''80'' = Some (FNum 80)"
  by code_simp

lemma py_float_minus_5: "py_float ''-5'' = Some (FNum (- 5))"
  by code_simp

lemma py_float_abc: "py_float ''abc'' = None"
  by code_simp

lemma percentage_or_number:
  "(case percentage_string (PStr str) of
      Inr value \<Rightarrow> store k value s
    | Inl e \<Rightarrow> if is_ValueError e then assign k (validators_numeric (PStr str) False True) s
               else raises e s) =
   (if str_contains ''%'' str then store k (PStr str) s
    else case py_float str of
           None \<Rightarrow> raises CannotCoerceError s
         | Some x \<Rightarrow> if float_below_zero x then raises MinimumValueError s
                      else store k (PFloat x) s)"
proof (cases "str = []")
  case True
  then show ?thesis
    by (simp add: percentage_string_def validators_string_def and_then_def
        validators_numeric_def py_float_empty assign_def)
next
  case False
  then show ?thesis
    by (simp add: percentage_string_def validators_string_def and_then_def
        validators_numeric_def assign_def split: option.splits)
qed

text \<open>
  Claim C4, as the sources have it, for every non-empty string. The percentage-string
  fields \<open>DialOptions.base_length\<close>, \<open>DialOptions.radius\<close> and \<open>DialOptions.rear_length\<close>
  store the string verbatim when it contains a percent marker and raise
  \<open>HighchartsValueError\<close> when it does not. The percentage-or-number fields
  \<open>SolidGauge.inner_radius\<close> and \<open>SolidGauge.radius\<close> store the string verbatim when it
  contains a percent marker; any other string is converted with \<open>float\<close>: when that fails
  the setter raises \<open>CannotCoerceError\<close>, when the number is below 0 it raises
  \<open>MinimumValueError\<close>, and otherwise the number is stored.
\<close>

theorem percentage_fields:
  "(str \<noteq> [] \<longrightarrow>
      DialOptions_base_length_setter (PStr str) s =
        (if str_contains ''%'' str then store ''_base_length'' (PStr str) s
         else raises HighchartsValueError s) \<and>
      DialOptions_radius_setter (PStr str) s =
        (if str_contains ''%'' str then store ''_radius'' (PStr str) s
         else raises HighchartsValueError s) \<and>
      DialOptions_rear_length_setter (PStr str) s =
        (if str_contains ''%'' str then store ''_rear_length'' (PStr str) s
         else raises HighchartsValueError s) \<and>
      SolidGauge_inner_radius_setter (PStr str) s =
        (if str_contains ''%'' str then store ''_inner_radius'' (PStr str) s
         else case py_float str of
                None \<Rightarrow> raises CannotCoerceError s
              | Some x \<Rightarrow> if float_below_zero x then raises MinimumValueError s
                           else store ''_inner_radius'' (PFloat x) s) \<and>
      SolidGauge_radius_setter (PStr str) s =
        (if str_contains ''%'' str then store ''_radius'' (PStr str) s
         else case py_float str of
                None \<Rightarrow> raises CannotCoerceError s
              | Some x \<Rightarrow> if float_below_zero x then raises MinimumValueError s
                           else store ''_radius'' (PFloat x) s))"
proof -
  have dial: "str \<noteq> [] \<Longrightarrow>
      DialOptions_base_length_setter (PStr str) s =
        (if str_contains ''%'' str then store ''_base_length'' (PStr str) s
         else raises HighchartsValueError s) \<and>
      DialOptions_radius_setter (PStr str) s =
        (if str_contains ''%'' str then store ''_radius'' (PStr str) s
         else raises HighchartsValueError s) \<and>
      DialOptions_rear_length_setter (PStr str) s =
        (if str_contains ''%'' str then store ''_rear_length'' (PStr str) s
         else raises HighchartsValueError s)"
    by (simp add: DialOptions_base_length_setter_def DialOptions_radius_setter_def
        DialOptions_rear_length_setter_def validators_string_def)
  have inner: "SolidGauge_inner_radius_setter (PStr str) s =
     (if str_contains ''%'' str then store ''_inner_radius'' (PStr str) s
      else case py_float str of
             None \<Rightarrow> raises CannotCoerceError s
           | Some x \<Rightarrow> if float_below_zero x then raises MinimumValueError s
                        else store ''_inner_radius'' (PFloat x) s)"
    unfolding SolidGauge_inner_radius_setter_def
    by (simp only: percentage_or_number pyval.simps if_False)
  have outer: "SolidGauge_radius_setter (PStr str) s =
     (if str_contains ''%'' str then store ''_radius'' (PStr str) s
      else case py_float str of
             None \<Rightarrow> raises CannotCoerceError s
           | Some x \<Rightarrow> if float_below_zero x then raises MinimumValueError s
                        else store ''_radius'' (PFloat x) s)"
    unfolding SolidGauge_radius_setter_def
    by (simp only: percentage_or_number pyval.simps if_False)
  from dial inner outer show ?thesis by blast
qed

theorem percentage_fields_witness:
  "\<forall>s. DialOptions_base_length_setter (PStr ''80%'') s =
         store ''_base_length'' (PStr ''80%'') s \<and>
       DialOptions_radius_setter (PStr ''80%'') s = store ''_radius'' (PStr ''80%'') s \<and>
       DialOptions_rear_length_setter (PStr ''80%'') s =
         store ''_rear_length'' (PStr ''80%'') s \<and>
       SolidGauge_inner_radius_setter (PStr ''80%'') s =
         store ''_inner_radius'' (PStr ''80%'') s \<and>
       SolidGauge_radius_setter (PStr ''80%'') s = store ''_radius'' (PStr ''80%'') s \<and>
       DialOptions_base_length_setter (PStr ''80'') s = raises HighchartsValueError s \<and>
       DialOptions_radius_setter (PStr ''80'') s = raises HighchartsValueError s \<and>
       DialOptions_rear_length_setter (PStr ''80'') s = raises HighchartsValueError s \<and>
       SolidGauge_inner_radius_setter (PStr ''80'') s =
         store ''_inner_radius'' (PFloat (FNum 80)) s \<and>
       SolidGauge_radius_setter (PStr ''80'') s = store ''_radius'' (PFloat (FNum 80)) s \<and>
       SolidGauge_inner_radius_setter (PStr ''-5'') s = raises MinimumValueError s \<and>
       SolidGauge_inner_radius_setter (PStr ''abc'') s = raises CannotCoerceError s"
  using percentage_fields [of "''80%''"] percentage_fields [of "''80''"]
    percentage_fields [of "''-5''"] percentage_fields [of "''abc''"]
  by (simp add: py_float_80 py_float_minus_5 py_float_abc)

text \<open>A numeric string without a percent marker assigned to \<open>inner_radius\<close> does not
  raise: \<open>'80'\<close> is stored as the float 80.\<close>

theorem inner_radius_accepts_numeric_string:
  "SolidGauge_inner_radius_setter (PStr ''80'') [] =
     (None, [(''_inner_radius'', PFloat (FNum 80))])"
  by (simp add: SolidGauge_inner_radius_setter_def percentage_string_def validators_string_def
      and_then_def validators_numeric_def py_float_80 assign_def store_def)

text \<open>The bare number 80 fails in \<open>validators.string\<close> with \<open>CannotCoerceError\<close>, a
  \<open>TypeError\<close> that the \<open>except ValueError\<close> handler lets through.\<close>

lemma inner_radius_rejects_number:
  "SolidGauge_inner_radius_setter (PInt 80) s = raises CannotCoerceError s"
  by (simp add: SolidGauge_inner_radius_setter_def percentage_string_def validators_string_def
      and_then_def)

subsection \<open>Construction without keyword arguments\<close>

lemmas breadcrumb_setter_defs =
  BreadcrumbOptions_button_spacing_setter_def BreadcrumbOptions_button_theme_setter_def
  BreadcrumbOptions_events_setter_def BreadcrumbOptions_floating_setter_def
  BreadcrumbOptions_format_setter_def BreadcrumbOptions_formatter_setter_def
  BreadcrumbOptions_position_setter_def BreadcrumbOptions_relative_to_setter_def
  BreadcrumbOptions_rtl_setter_def BreadcrumbOptions_separator_setter_def
  BreadcrumbOptions_show_full_path_setter_def BreadcrumbOptions_style_setter_def
  BreadcrumbOptions_use_html_setter_def BreadcrumbOptions_z_index_setter_def

lemmas gauge_setter_defs =
  GaugeOptions_color_index_setter_def GaugeOptions_crisp_setter_def
  GaugeOptions_dial_setter_def GaugeOptions_linecap_setter_def
  GaugeOptions_line_width_setter_def GaugeOptions_overshoot_setter_def
  GaugeOptions_pivot_setter_def GaugeOptions_point_interval_setter_def
  GaugeOptions_point_interval_unit_setter_def GaugeOptions_point_start_setter_def
  GaugeOptions_relative_x_value_setter_def GaugeOptions_shadow_setter_def
  GaugeOptions_wrap_setter_def

lemmas library_defs =
  assign_def store_def raises_def validators_numeric_def validators_dict_def
  validators_string_def validators_integer_def class_sensitive_def construct_def pop_def
  py_bool_def

lemma BreadcrumbOptions_no_kwargs:
  "BreadcrumbOptions_init E [] = Inr (BreadcrumbOptions_attrs0 @ [(''_theme'', PNone)])"
  by (simp add: BreadcrumbOptions_init_def BreadcrumbOptions_setters_def
      breadcrumb_setter_defs BreadcrumbOptions_attrs0_def library_defs)

lemma ResetZoomButtonOptions_no_kwargs:
  "ResetZoomButtonOptions_init E [] =
     Inr [(''_position'', PNone), (''_relative_to'', PNone), (''_theme'', PNone)]"
  by (simp add: ResetZoomButtonOptions_init_def ResetZoomButtonOptions_setters_def
      ResetZoomButtonOptions_attrs0_def ResetZoomButtonOptions_position_setter_def ResetZoomButtonOptions_relative_to_setter_def
      ResetZoomButtonOptions_theme_setter_def library_defs)

lemma PivotOptions_no_kwargs: "PivotOptions_init E [] = Inr PivotOptions_attrs0"
  by (simp add: PivotOptions_init_def PivotOptions_setters_def PivotOptions_attrs0_def
      PivotOptions_background_color_setter_def PivotOptions_border_color_setter_def
      PivotOptions_border_width_setter_def PivotOptions_radius_setter_def color_setter_def
      library_defs)

lemma GaugeOptions_no_kwargs:
  "GaugeOptions_init E [] =
     and_then (parent_init E ''GenericTypeOptions'' []) (\<lambda>p. Inr (GaugeOptions_attrs0 @ p))"
  by (simp add: GaugeOptions_init_def subclass_init_def GaugeOptions_setters_def
      gauge_setter_defs GaugeOptions_attrs0_def library_defs and_then_def without_keys_def
      split: sum.splits)

lemma SolidGauge_no_kwargs:
  "SolidGauge_init E [] =
     and_then (parent_init E ''SeriesOptions'' []) (\<lambda>p. Inr (SolidGauge_attrs0 @ p))"
  by (simp add: SolidGauge_init_def subclass_init_def SolidGauge_setters_def
      SolidGauge_inner_radius_setter_def SolidGauge_overshoot_setter_def
      SolidGauge_radius_setter_def SolidGauge_rounded_setter_def
      SolidGauge_attrs0_def library_defs and_then_def without_keys_def split: sum.splits)

lemma VectorData_no_kwargs:
  "VectorData_init E [] =
     and_then (parent_init E ''CartesianData'' [])
       (\<lambda>p. Inr ([(''_direction'', PNone), (''_length'', PNone)] @ p))"
  by (simp add: VectorData_init_def subclass_init_def VectorData_setters_def
      VectorData_attrs0_def VectorData_direction_setter_def VectorData_length_setter_def
      library_defs and_then_def without_keys_def split: sum.splits)

lemma SeriesNavigation_no_kwargs:
  "SeriesNavigation_init [] =
     Inr [(''_mode'', PStr ''normal''),
          (''_point_navigation_enabled_threshold'', PBool False),
          (''_remember_point_focus'', PBool False),
          (''_skip_null_points'', PBool True)]"
  by (simp add: SeriesNavigation_init_def SeriesNavigation_setters_def construct_def pop_def
      SeriesNavigation_attrs0_def SeriesNavigation_mode_setter_def
      SeriesNavigation_point_navigation_enabled_threshold_setter_def
      SeriesNavigation_remember_point_focus_setter_def
      SeriesNavigation_skip_null_points_setter_def
      validators_string_def lower_def lower_char_def store_def py_bool_def)

text \<open>
  Construction without keyword arguments succeeds for \<open>BreadcrumbOptions\<close>,
  \<open>ResetZoomButtonOptions\<close> and \<open>PivotOptions\<close> and leaves every attribute \<open>None\<close>; for
  \<open>GaugeOptions\<close>, \<open>SolidGauge\<close> and \<open>VectorData\<close> it leaves every attribute of the class
  itself \<open>None\<close> and succeeds when the parent's constructor does; for \<open>SeriesNavigation\<close> it
  succeeds and the attributes hold the documented defaults.
\<close>

lemma construction_without_kwargs:
  "BreadcrumbOptions_init E [] = Inr (BreadcrumbOptions_attrs0 @ [(''_theme'', PNone)]) \<and>
   ResetZoomButtonOptions_init E [] =
     Inr [(''_position'', PNone), (''_relative_to'', PNone), (''_theme'', PNone)] \<and>
   PivotOptions_init E [] = Inr PivotOptions_attrs0 \<and>
   GaugeOptions_init E [] =
     and_then (parent_init E ''GenericTypeOptions'' []) (\<lambda>p. Inr (GaugeOptions_attrs0 @ p)) \<and>
   SolidGauge_init E [] =
     and_then (parent_init E ''SeriesOptions'' []) (\<lambda>p. Inr (SolidGauge_attrs0 @ p)) \<and>
   VectorData_init E [] =
     and_then (parent_init E ''CartesianData'' [])
       (\<lambda>p. Inr ([(''_direction'', PNone), (''_length'', PNone)] @ p)) \<and>
   SeriesNavigation_init [] =
     Inr [(''_mode'', PStr ''normal''),
          (''_point_navigation_enabled_threshold'', PBool False),
          (''_remember_point_focus'', PBool False),
          (''_skip_null_points'', PBool True)] \<and>
   list_all (\<lambda>p. snd p = PNone)
     (BreadcrumbOptions_attrs0 @ PivotOptions_attrs0 @ GaugeOptions_attrs0 @ SolidGauge_attrs0)"
  by (simp add: BreadcrumbOptions_no_kwargs ResetZoomButtonOptions_no_kwargs
      PivotOptions_no_kwargs GaugeOptions_no_kwargs SolidGauge_no_kwargs VectorData_no_kwargs
      SeriesNavigation_no_kwargs BreadcrumbOptions_attrs0_def PivotOptions_attrs0_def
      GaugeOptions_attrs0_def SolidGauge_attrs0_def)

text \<open>\<open>SeriesNavigation()\<close> does not leave its fields \<open>None\<close>: \<open>mode\<close> reads \<open>'normal'\<close> and
  \<open>skip_null_points\<close> reads \<open>True\<close>.\<close>

lemma SeriesNavigation_fields_not_None:
  "and_then (SeriesNavigation_init []) SeriesNavigation_mode = Inr (PStr ''normal'') \<and>
   and_then (SeriesNavigation_init []) SeriesNavigation_skip_null_points = Inr (PBool True)"
  by (simp add: SeriesNavigation_no_kwargs and_then_def SeriesNavigation_mode_def
      SeriesNavigation_skip_null_points_def getattr_def)

text \<open>
  Claim C5 names \<open>Separator()\<close>, which is to succeed and leave \<open>style\<close> and \<open>text\<close> unset.
  The constructor assigns \<open>style\<close> first, and \<open>Separator.style\<close> calls
  \<open>validators.dict(value)\<close> without \<open>allow_empty\<close>: every construction of a \<open>Separator\<close>
  that gives no style, or an empty one, raises \<open>EmptyValueError\<close>, whatever \<open>text\<close> is, and
  so does \<open>Separator.from_dict\<close> on a dictionary without a style.
\<close>

theorem Separator_without_style_raises:
  "(\<not> truthy (pop kwargs ''style'' PNone) \<longrightarrow>
      Separator_init E kwargs = Inl EmptyValueError) \<and>
   (\<not> truthy (pop as_dict ''style'' PNone) \<longrightarrow>
      Separator_from_dict E as_dict = Inl EmptyValueError)"
  by (simp add: Separator_from_dict_def Separator_init_def Separator_setters_def
      Separator_attrs0_def Separator_style_setter_def construct_def assign_def raises_def
      validators_dict_def pop_def)

theorem Separator_without_style_raises_witness:
  "\<forall>E. Separator_init E [] = Inl EmptyValueError \<and>
       Separator_init E [(''text'', PStr ''/'')] = Inl EmptyValueError \<and>
       Separator_init E [(''style'', PDict []), (''text'', PStr ''/'')] = Inl EmptyValueError \<and>
       Separator_from_dict E [(''text'', PStr ''/'')] = Inl EmptyValueError"
  using Separator_without_style_raises [of "[]"]
    Separator_without_style_raises [of "[(''text'', PStr ''/'')]" _ "[(''text'', PStr ''/'')]"]
    Separator_without_style_raises [of "[(''style'', PDict []), (''text'', PStr ''/'')]"]
  by (simp add: pop_def)

text \<open>\<open>DialOptions()\<close> raises for the same reason: \<open>DialOptions.top_width\<close> calls its
  validator without \<open>allow_empty\<close>.\<close>

lemma DialOptions_no_kwargs: "DialOptions_init E [] = Inl EmptyValueError"
  by (simp add: DialOptions_init_def DialOptions_setters_def DialOptions_attrs0_def
      DialOptions_background_color_setter_def DialOptions_base_length_setter_def
      DialOptions_base_width_setter_def DialOptions_border_color_setter_def
      DialOptions_border_width_setter_def DialOptions_path_setter_def
      DialOptions_radius_setter_def DialOptions_rear_length_setter_def
      DialOptions_top_width_setter_def color_setter_def library_defs)

subsection \<open>\<open>VectorData.from_setter\<close>\<close>



lemma VectorData_coerce_three:
  "VectorData_coerce E (PList [i0, i1, i2]) =
     instance_of ''VectorData''
       (VectorData_init E [(''x'', PNone), (''y'', i0), (''length'', i1), (''direction'', i2)])"
  by (simp add: VectorData_coerce_def is_instance_def checkers_is_dict_def is_dict_def validators_dict_def
      py_len_def py_index_def and_then_def)




subsection \<open>The round trip of \<open>GaugeOptions\<close>\<close>

lemma GaugeOptions_kwargs_without_point_start:
  "pop (GaugeOptions_get_kwargs_from_dict d) ''point_start'' PNone = PNone"
  by (simp add: pop_def GaugeOptions_get_kwargs_from_dict_def)

text \<open>The sibling \<open>SolidGauge._get_kwargs_from_dict\<close> does read \<open>pointStart\<close>.\<close>

lemma SolidGauge_kwargs_with_point_start:
  "map_of (SolidGauge_get_kwargs_from_dict d) ''point_start'' =
     Some (pop d ''pointStart'' (PInt 0))"
  by (simp add: SolidGauge_get_kwargs_from_dict_def)

lemma GaugeOptions_shadow_other:
  "k' \<noteq> ''_shadow'' \<Longrightarrow> map_of (snd (GaugeOptions_shadow_setter E v s)) k' = map_of s k'"
  by (cases v)
    (simp_all add: GaugeOptions_shadow_setter_def map_of_assign_other map_of_store_other)

lemma GaugeOptions_point_start_None:
  "map_of (snd (GaugeOptions_point_start_setter PNone s)) ''_point_start'' = Some PNone"
  by (simp add: GaugeOptions_point_start_setter_def validators_numeric_def assign_def store_def
      map_of_setattr)

lemma GaugeOptions_setters_keep_point_start:
  assumes "pop kw ''point_start'' PNone = PNone"
    and "f \<in> set (GaugeOptions_setters E kw)"
    and "map_of s ''_point_start'' = Some PNone"
  shows "map_of (snd (f s)) ''_point_start'' = Some PNone"
proof -
  have "f = GaugeOptions_point_start_setter PNone \<or>
    map_of (snd (f s)) ''_point_start'' = map_of s ''_point_start''"
    using assms(2) unfolding GaugeOptions_setters_def assms(1)
    by (auto simp: GaugeOptions_color_index_setter_def GaugeOptions_crisp_setter_def
        GaugeOptions_dial_setter_def GaugeOptions_linecap_setter_def
        GaugeOptions_line_width_setter_def GaugeOptions_overshoot_setter_def
        GaugeOptions_pivot_setter_def GaugeOptions_point_interval_setter_def
        GaugeOptions_point_interval_unit_setter_def GaugeOptions_relative_x_value_setter_def
        GaugeOptions_wrap_setter_def map_of_assign_other map_of_store_other
        GaugeOptions_shadow_other)
  then show ?thesis using assms(3) GaugeOptions_point_start_None by auto
qed

text \<open>
  Claim C1. \<open>from_dict(node.to_dict())\<close> gives a node with the same dictionary; for
  \<open>GaugeOptions\<close>, a \<open>pointStart\<close> entry survives the round trip. The keyword arguments
  that \<open>GaugeOptions._get_kwargs_from_dict\<close> builds have no \<open>point_start\<close>, so whatever
  the dictionary holds, the node that \<open>from_dict\<close> returns has \<open>point_start\<close> unset.
\<close>

theorem GaugeOptions_from_dict_loses_point_start:
  "GaugeOptions_from_dict E as_dict = Inr s \<Longrightarrow> GaugeOptions_point_start s = Inr PNone"
proof -
  let ?kw = "GaugeOptions_get_kwargs_from_dict as_dict"
  assume "GaugeOptions_from_dict E as_dict = Inr s"
  then obtain x p
    where x: "run_all (GaugeOptions_setters E ?kw) GaugeOptions_attrs0 = (None, x)"
      and s: "s = x @ p"
    unfolding GaugeOptions_from_dict_def GaugeOptions_init_def by (rule subclass_init_Inr)
  have "map_of (snd (run_all (GaugeOptions_setters E ?kw) GaugeOptions_attrs0))
      ''_point_start'' = Some PNone"
  proof (rule run_all_invariant)
    fix f and s :: obj
    assume "f \<in> set (GaugeOptions_setters E ?kw)" and "map_of s ''_point_start'' = Some PNone"
    with GaugeOptions_kwargs_without_point_start
    show "map_of (snd (f s)) ''_point_start'' = Some PNone"
      by (rule GaugeOptions_setters_keep_point_start)
  qed (simp add: GaugeOptions_attrs0_def)
  with x have "map_of x ''_point_start'' = Some PNone" by simp
  with s show ?thesis
    by (simp add: GaugeOptions_point_start_def getattr_def)
qed

lemma GaugeOptions_from_dict_env0:
  "\<exists>s. GaugeOptions_from_dict env0 [(''pointStart'', PInt 5)] = Inr s"
  by (simp add: GaugeOptions_from_dict_def GaugeOptions_init_def subclass_init_def
      GaugeOptions_get_kwargs_from_dict_def GaugeOptions_setters_def gauge_setter_defs
      GaugeOptions_attrs0_def library_defs and_then_def without_keys_def env0_def)

theorem GaugeOptions_from_dict_loses_point_start_witness:
  "\<exists>s. GaugeOptions_from_dict env0 [(''pointStart'', PInt 5)] = Inr s \<and>
       GaugeOptions_point_start s = Inr PNone"
proof -
  from GaugeOptions_from_dict_env0
  obtain s where s: "GaugeOptions_from_dict env0 [(''pointStart'', PInt 5)] = Inr s" ..
  from s GaugeOptions_from_dict_loses_point_start [OF s] show ?thesis
    by (intro exI conjI)
qed

text \<open>The whole round trip on a node with \<open>point_start = 5\<close>: \<open>to_dict\<close> writes
  \<open>pointStart\<close>, and the dictionary of the node read back from it has the defaults of
  \<open>from_dict\<close> and no \<open>pointStart\<close>.\<close>

lemma GaugeOptions_to_dict_has_point_start:
  "and_then (GaugeOptions_init env0 [(''point_start'', PInt 5)]) (GaugeOptions_to_dict env0) =
     Inr [(''pointStart'', PInt 5)]"
  by code_simp

lemma GaugeOptions_round_trip_env0:
  "and_then (GaugeOptions_from_dict env0 [(''pointStart'', PInt 5)])
     (GaugeOptions_to_dict env0) =
     Inr [(''crisp'', PBool True), (''linecap'', PStr ''round''), (''lineWidth'', PInt 2),
          (''pointInterval'', PInt 1), (''relativeXValue'', PBool False),
          (''shadow'', PBool False)]"
  by code_simp

subsection \<open>Assignments that return\<close>

text \<open>
  The setters of \<open>DialOptions.base_length\<close> and \<open>BreadcrumbOptions.relative_to\<close> either
  raise, and the instance is as before, or store a value of the field's type: \<open>None\<close> or a
  string with a percent marker, and \<open>None\<close>, \<open>'plot'\<close> or \<open>'chart'\<close>.
\<close>

lemma DialOptions_base_length_raises_or_stores:
  "(\<exists>e. DialOptions_base_length_setter v s = raises e s) \<or>
   DialOptions_base_length_setter v s = store ''_base_length'' PNone s \<or>
   (\<exists>str. str_contains ''%'' str \<and>
      DialOptions_base_length_setter v s = store ''_base_length'' (PStr str) s)"
  by (cases v) (auto simp: DialOptions_base_length_setter_def validators_string_def)

lemma BreadcrumbOptions_relative_to_raises_or_stores:
  "(\<exists>e. BreadcrumbOptions_relative_to_setter v s = raises e s) \<or>
   (\<exists>x. (x = PNone \<or> x = PStr ''plot'' \<or> x = PStr ''chart'') \<and>
      BreadcrumbOptions_relative_to_setter v s = store ''_relative_to'' x s)"
  by (cases v)
    (auto simp: BreadcrumbOptions_relative_to_setter_def validators_string_def Let_def
      lower_not_camel_case split: if_splits)

text \<open>
  \<open>DialOptions.path\<close> is declared a list. Its validator admits every iterable that is not
  a string, so a dictionary is stored as it is.
\<close>

lemma DialOptions_path_stores_dict:
  "DialOptions_path_setter (PDict [(''a'', PInt 1)]) s =
     store ''_path'' (PDict [(''a'', PInt 1)]) s"
  by (simp add: DialOptions_path_setter_def validators_iterable_def assign_def)

text \<open>
  Claim C6 says that an assignment that does not raise commits the validated value. The
  setter of \<open>BreadcrumbOptions.z_index\<close> does neither: on the integer 5 it returns and the
  instance is as before, so that a node constructed with \<open>z_index = 5\<close> is the node
  constructed without keyword arguments, and its \<open>z_index\<close> reads \<open>None\<close>.
\<close>

theorem BreadcrumbOptions_z_index_not_committed:
  "BreadcrumbOptions_z_index_setter (PInt 5) s = (None, s) \<and>
   BreadcrumbOptions_init E [(''z_index'', PInt 5)] = BreadcrumbOptions_init E [] \<and>
   and_then (BreadcrumbOptions_init E [(''z_index'', PInt 5)]) BreadcrumbOptions_z_index =
     Inr PNone"
  by (simp add: BreadcrumbOptions_init_def BreadcrumbOptions_setters_def
      breadcrumb_setter_defs BreadcrumbOptions_attrs0_def library_defs and_then_def
      BreadcrumbOptions_z_index_def getattr_def)

end
